theory Spec2Isabelle
  imports Main "HOL-Library.Word"
begin

section \<open>The JDWP-over-ADB transport (src/jdwp/jdwp_adb.cc)\<close>

text \<open>
  The transport is modelled as one sequential thread.  Its state is the record
  \<open>JdwpNetState\<close>; the operating system is a \<open>world\<close> (the set of open
  descriptors, the trace of system calls made, the error-level log) together with a
  script: the list of results that the kernel gives to the system calls, in the order in
  which they are made.  A system call whose answer is not the next entry of the script
  does not return (\<open>Stuck\<close>).  Descriptors are \<open>int\<close>, with \<open>-1\<close> for an unset
  field; \<open>inputBuffer\<close> is the array of \<open>kInputBufferSize\<close> bytes and \<open>inputCount\<close>,
  a \<open>size_t\<close>, the number of its bytes in use.  \<open>size_t\<close> is taken as 64 bits wide:
  its arithmetic wraps around, as \<open>sizeof(inputBuffer) - inputCount\<close> does in the source
  when \<open>inputCount\<close> exceeds the size of the array.  Mutation of the state by a second thread is outside
  the model.
\<close>

subsection \<open>Constants (jdwp_priv.h)\<close>

definition kJDWPHeaderLen :: nat where
  "kJDWPHeaderLen = 11"

definition kMagicHandshake :: string where
  "kMagicHandshake = ''JDWP-Handshake''"

definition kMagicHandshakeLen :: nat where
  "kMagicHandshakeLen = length kMagicHandshake"

definition kInputBufferSize :: nat where
  "kInputBufferSize = 8192"

definition EINTR :: int where
  "EINTR = 4"

subsection \<open>State, world and script\<close>

record JdwpNetState =
  clientSock :: int
  inputBuffer :: string
  inputCount :: "64 word"
  awaiting_handshake :: bool
  controlSock :: int
  shuttingDown :: bool
  wakeFds :: "int \<times> int"

text \<open>The constructor \<open>JdwpNetState()\<close>.  The body of the base constructor
  \<open>JdwpNetStateBase()\<close> is not in jdwp_priv.h, so the initial values of the base fields
  are arguments.\<close>

definition JdwpNetState_new :: "int \<Rightarrow> string \<Rightarrow> 64 word \<Rightarrow> bool \<Rightarrow> JdwpNetState" where
  "JdwpNetState_new cs buf cnt aw =
     \<lparr>clientSock = cs, inputBuffer = buf, inputCount = cnt, awaiting_handshake = aw,
      controlSock = - 1, shuttingDown = False, wakeFds = (- 1, - 1)\<rparr>"

datatype event =
    EvSocket int
  | EvPipe int int int
  | EvConnect int int
  | EvSend int string int
  | EvUsleep int
  | EvRecvmsg int int int
  | EvShutdown int
  | EvClose int
  | EvSelect "int list" int
  | EvRead int nat int
  | EvWrite int string int

record world =
  open_fds :: "int set"
  trace :: "event list"
  logs :: "string list"

datatype sysres =
    SocketRes int
  | PipeRes int int int
  | ConnectRes int
  | PeerTrusted bool
  | SendRes int int
  | RecvmsgRes int int "int option"
  | SelectRes int int "int list"
  | ReadErr int
  | ReadData string
  | WriteRes int int

type_synonym script = "sysres list"

datatype 'a outcome = Returns 'a | Aborts | Stuck

definition emit :: "event \<Rightarrow> world \<Rightarrow> world" where
  "emit e w = w\<lparr>trace := trace w @ [e]\<rparr>"

definition LOG :: "string \<Rightarrow> world \<Rightarrow> world" where
  "LOG m w = w\<lparr>logs := logs w @ [m]\<rparr>"

definition fd_install :: "int \<Rightarrow> world \<Rightarrow> world" where
  "fd_install fd w = w\<lparr>open_fds := insert fd (open_fds w)\<rparr>"

definition sys_close :: "int \<Rightarrow> world \<Rightarrow> world" where
  "sys_close fd w = emit (EvClose fd) (w\<lparr>open_fds := open_fds w - {fd}\<rparr>)"

definition sys_shutdown :: "int \<Rightarrow> world \<Rightarrow> world" where
  "sys_shutdown fd w = emit (EvShutdown fd) w"

text \<open>\<open>TEMP_FAILURE_RETRY(write(fd, buf, n))\<close>: the call is repeated while it returns
  \<open>-1\<close> with \<open>errno == EINTR\<close>.\<close>

fun write_retry :: "int \<Rightarrow> string \<Rightarrow> world \<Rightarrow> script \<Rightarrow> int option \<times> world \<times> script" where
  "write_retry fd buf w (WriteRes r e # env) =
     (if r = - 1 \<and> e = EINTR then write_retry fd buf (emit (EvWrite fd buf r) w) env
      else (Some r, emit (EvWrite fd buf r) w, env))"
| "write_retry fd buf w env = (None, w, env)"

text \<open>\<open>TEMP_FAILURE_RETRY(send(fd, buf, n, 0))\<close>.\<close>

fun send_retry :: "int \<Rightarrow> string \<Rightarrow> world \<Rightarrow> script \<Rightarrow> int option \<times> world \<times> script" where
  "send_retry fd buf w (SendRes r e # env) =
     (if r = - 1 \<and> e = EINTR then send_retry fd buf (emit (EvSend fd buf r) w) env
      else (Some r, emit (EvSend fd buf r) w, env))"
| "send_retry fd buf w env = (None, w, env)"

subsection \<open>adbStateFree, netFree\<close>

text \<open>The argument is \<open>None\<close> for a NULL pointer.  The state is deleted at the end, so
  only the world is returned.\<close>

definition adbStateFree :: "JdwpNetState option \<Rightarrow> world \<Rightarrow> world" where
  "adbStateFree netState w =
     (case netState of
        None \<Rightarrow> w
      | Some s \<Rightarrow>
          let w1 = (if clientSock s \<ge> 0
                    then sys_close (clientSock s) (sys_shutdown (clientSock s) w) else w);
              w2 = (if controlSock s \<ge> 0
                    then sys_close (controlSock s) (sys_shutdown (controlSock s) w1) else w1);
              w3 = (if fst (wakeFds s) \<ge> 0 then sys_close (fst (wakeFds s)) w2 else w2);
              w4 = (if snd (wakeFds s) \<ge> 0 then sys_close (snd (wakeFds s)) w3 else w3)
          in w4)"

definition netFree :: "JdwpNetState option \<Rightarrow> world \<Rightarrow> world" where
  "netFree state w = adbStateFree state w"

subsection \<open>receiveClientFd\<close>

text \<open>The \<open>do ... while (ret < 0 && errno == EINTR)\<close> loop around \<open>recvmsg\<close>.  The
  control buffer is initialised to \<open>-1\<close>; a successful call that carries a descriptor
  installs it and overwrites the buffer, one that carries none leaves the buffer as it
  is.  The result is the return value and the content of the control buffer.\<close>

fun recvmsg_loop :: "int \<Rightarrow> world \<Rightarrow> script \<Rightarrow> (int \<times> int) option \<times> world \<times> script" where
  "recvmsg_loop fd w (RecvmsgRes r e anc # env) =
     (if r < 0 \<and> e = EINTR then recvmsg_loop fd (emit (EvRecvmsg fd r e) w) env
      else (case anc of
              Some d \<Rightarrow> if 0 < r then (Some (r, d), fd_install d (emit (EvRecvmsg fd r e) w), env)
                        else (Some (r, - 1), emit (EvRecvmsg fd r e) w, env)
            | None \<Rightarrow> (Some (r, - 1), emit (EvRecvmsg fd r e) w, env)))"
| "recvmsg_loop fd w env = (None, w, env)"

definition receiveClientFd ::
    "JdwpNetState \<Rightarrow> world \<Rightarrow> script \<Rightarrow> int outcome \<times> JdwpNetState \<times> world \<times> script" where
  "receiveClientFd netState w env =
     (case recvmsg_loop (controlSock netState) w env of
        (None, w', env') \<Rightarrow> (Stuck, netState, w', env')
      | (Some (ret, cmsg_data), w', env') \<Rightarrow>
          if ret \<le> 0 then
            (Returns (- 1), netState\<lparr>controlSock := - 1\<rparr>,
             sys_close (controlSock netState)
               (if ret < 0 then LOG ''Receiving file descriptor from ADB failed'' w' else w'),
             env')
          else (Returns cmsg_data, netState, w', env'))"

subsection \<open>acceptConnection\<close>

text \<open>\<open>snprintf(buff, sizeof(buff), "%04x", getpid())\<close> with \<open>char buff[5]\<close>: the
  identifier is read as an unsigned 32-bit value, rendered in lowercase hexadecimal,
  padded with zeros to at least four digits, and cut after \<open>sizeof(buff) - 1\<close>
  characters.\<close>

definition hex_digit :: "nat \<Rightarrow> char" where
  "hex_digit d = ''0123456789abcdef'' ! (d mod 16)"

function hex_of :: "nat \<Rightarrow> string" where
  "hex_of n = (if n < 16 then [hex_digit n] else hex_of (n div 16) @ [hex_digit (n mod 16)])"
  by pat_completeness auto
termination
  by (relation "measure id") auto

declare hex_of.simps [simp del]

definition format_04x :: "int \<Rightarrow> string" where
  "format_04x v =
     (let ds = hex_of (nat (v mod 2 ^ 32)) in replicate (4 - length ds) CHR ''0'' @ ds)"

definition snprintf_04x :: "nat \<Rightarrow> int \<Rightarrow> string" where
  "snprintf_04x sz v = take (sz - 1) (format_04x v)"

text \<open>\<open>socket_peer_is_trusted\<close> exists only under \<open>HAVE_ANDROID_OS\<close>.\<close>

fun peer_check :: "bool \<Rightarrow> script \<Rightarrow> bool option \<times> script" where
  "peer_check False env = (Some True, env)"
| "peer_check True (PeerTrusted b # env) = (Some b, env)"
| "peer_check True env = (None, env)"

text \<open>The \<open>for (;;)\<close> loop around \<open>connect\<close>.  The result \<open>None\<close> is the \<open>break\<close>;
  \<open>Some r\<close> leaves \<open>acceptConnection\<close> with \<open>r\<close>.  \<open>sleep_ms\<close> is an \<open>int\<close>
  that stays between 500 and 2000, so \<open>sleep_ms >> 1\<close> is \<open>sleep_ms div 2\<close> and
  nothing overflows.  The result of \<open>shutdown\<close> for an untrusted peer only decides a
  log line and is not scripted; messages of \<open>VLOG\<close> are not recorded.\<close>

fun connect_loop ::
    "bool \<Rightarrow> string \<Rightarrow> int \<Rightarrow> JdwpNetState \<Rightarrow> world \<Rightarrow> script
      \<Rightarrow> bool outcome option \<times> JdwpNetState \<times> world \<times> script" where
  "connect_loop android buff sleep_ms netState w (ConnectRes ret # env) =
     (let w1 = emit (EvConnect (controlSock netState) ret) w in
      if ret = 0 then
        (case peer_check android env of
           (None, env1) \<Rightarrow> (Some Stuck, netState, w1, env1)
         | (Some False, env1) \<Rightarrow>
             (Some (Returns False), netState, sys_shutdown (controlSock netState) w1, env1)
         | (Some True, env1) \<Rightarrow>
             (case send_retry (controlSock netState) (take 4 buff) w1 env1 of
                (None, w2, env2) \<Rightarrow> (Some Stuck, netState, w2, env2)
              | (Some ret', w2, env2) \<Rightarrow>
                  if ret' \<ge> 0 then (None, netState, w2, env2)
                  else (Some (Returns False), netState,
                        LOG ''Weird, can't send JDWP process pid to ADB'' w2, env2)))
      else
        (let w2 = emit (EvUsleep (sleep_ms * 1000)) w1;
             sleep_ms1 = sleep_ms + sleep_ms div 2;
             sleep_ms2 = (if sleep_ms1 > 2 * 1000 then 2 * 1000 else sleep_ms1)
         in if shuttingDown netState then (Some (Returns False), netState, w2, env)
            else connect_loop android buff sleep_ms2 netState w2 env))"
| "connect_loop android buff sleep_ms netState w env = (Some Stuck, netState, w, env)"

text \<open>The body of \<open>if (netState->controlSock < 0) { ... }\<close>.\<close>

definition connect_control ::
    "bool \<Rightarrow> int \<Rightarrow> JdwpNetState \<Rightarrow> world \<Rightarrow> script
      \<Rightarrow> bool outcome option \<times> JdwpNetState \<times> world \<times> script" where
  "connect_control android pid netState w env =
     (case env of
        SocketRes fd # env1 \<Rightarrow>
          (let s1 = netState\<lparr>controlSock := fd\<rparr>;
               w1 = emit (EvSocket fd) (if fd \<ge> 0 then fd_install fd w else w)
           in if controlSock s1 < 0
              then (Some (Returns False), s1, LOG ''Could not create ADB control socket'' w1, env1)
              else
                (case env1 of
                   PipeRes r a b # env2 \<Rightarrow>
                     (let s2 = (if r < 0 then s1 else s1\<lparr>wakeFds := (a, b)\<rparr>);
                          w2 = emit (EvPipe r a b)
                                 (if r < 0 then w1 else fd_install b (fd_install a w1))
                      in if r < 0 then (Some (Returns False), s2, LOG ''pipe failed'' w2, env2)
                         else connect_loop android (snprintf_04x 5 pid) 500 s2 w2 env2)
                 | _ \<Rightarrow> (Some Stuck, s1, w1, env1)))
      | _ \<Rightarrow> (Some Stuck, netState, w, env))"

text \<open>The code from the label \<open>retry:\<close> to the end, with the local \<open>retryCount\<close> as an
  argument.\<close>

function accept_retry ::
    "bool \<Rightarrow> int \<Rightarrow> int \<Rightarrow> JdwpNetState \<Rightarrow> world \<Rightarrow> script
      \<Rightarrow> bool outcome \<times> JdwpNetState \<times> world \<times> script" where
  "accept_retry android pid retryCount netState w env =
     (if shuttingDown netState then (Returns False, netState, w, env)
      else
        (case (if controlSock netState < 0 then connect_control android pid netState w env
               else (None, netState, w, env)) of
           (Some r, s1, w1, env1) \<Rightarrow> (r, s1, w1, env1)
         | (None, s1, w1, env1) \<Rightarrow>
             (case receiveClientFd s1 w1 env1 of
                (Returns fd, s2, w2, env2) \<Rightarrow>
                  (let s3 = s2\<lparr>clientSock := fd\<rparr> in
                   if shuttingDown s3 then (Returns False, s3, w2, env2)
                   else if clientSock s3 < 0 then
                     (if retryCount + 1 > 5
                      then (Returns False, s3, LOG ''adb connection max retries exceeded'' w2, env2)
                      else accept_retry android pid (retryCount + 1) s3 w2 env2)
                   else (Returns True, s3\<lparr>awaiting_handshake := True, inputCount := 0\<rparr>, w2, env2))
              | (Aborts, s2, w2, env2) \<Rightarrow> (Aborts, s2, w2, env2)
              | (Stuck, s2, w2, env2) \<Rightarrow> (Stuck, s2, w2, env2))))"
  by pat_completeness auto
termination
  by (relation "measure (\<lambda>(android, pid, retryCount, netState, w, env). nat (6 - retryCount))") auto

declare accept_retry.simps [simp del]

definition acceptConnection ::
    "bool \<Rightarrow> int \<Rightarrow> JdwpNetState \<Rightarrow> world \<Rightarrow> script
      \<Rightarrow> bool outcome \<times> JdwpNetState \<times> world \<times> script" where
  "acceptConnection android pid netState w env = accept_retry android pid 0 netState w env"

subsection \<open>adbStateShutdown, netShutdown\<close>

definition adbStateShutdown ::
    "JdwpNetState option \<Rightarrow> world \<Rightarrow> script
      \<Rightarrow> unit outcome \<times> JdwpNetState option \<times> world \<times> script" where
  "adbStateShutdown netState w env =
     (case netState of
        None \<Rightarrow> (Returns (), None, w, env)
      | Some s \<Rightarrow>
          (let s1 = s\<lparr>shuttingDown := True\<rparr>;
               clientSock' = clientSock s1;
               s2 = (if clientSock' \<ge> 0 then s1\<lparr>clientSock := - 1\<rparr> else s1);
               w2 = (if clientSock' \<ge> 0 then sys_shutdown clientSock' w else w);
               controlSock' = controlSock s2;
               s3 = (if controlSock' \<ge> 0 then s2\<lparr>controlSock := - 1\<rparr> else s2);
               w3 = (if controlSock' \<ge> 0 then sys_shutdown controlSock' w2 else w2)
           in if snd (wakeFds s3) \<ge> 0 then
                (case write_retry (snd (wakeFds s3)) [CHR 0x00] w3 env of
                   (None, w4, env4) \<Rightarrow> (Stuck, Some s3, w4, env4)
                 | (Some cc, w4, env4) \<Rightarrow> (Returns (), Some s3, w4, env4))
              else (Returns (), Some s3, w3, env)))"

definition netShutdown ::
    "JdwpNetState option \<Rightarrow> world \<Rightarrow> script
      \<Rightarrow> unit outcome \<times> JdwpNetState option \<times> world \<times> script" where
  "netShutdown state w env = adbStateShutdown state w env"

subsection \<open>The members of JdwpNetStateBase used by processIncoming\<close>

text \<open>Modelled from the spec: the bodies of \<open>JdwpNetStateBase::Close\<close>,
  \<open>ConsumeBytes\<close>, \<open>IsAwaitingHandshake\<close> and \<open>SetAwaitingHandshake\<close> are declared in
  jdwp_priv.h and defined in a file that is not among the sources.  The spec describes
  \<open>Close\<close> as the close-and-clear operation on the client channel that closes at most
  once, and the consumption of \<open>N\<close> bytes as removing them from the front of the buffer,
  shifting the remainder to the front.\<close>

definition Close :: "JdwpNetState \<Rightarrow> world \<Rightarrow> JdwpNetState \<times> world" where
  "Close netState w =
     (if clientSock netState < 0 then (netState, w)
      else (netState\<lparr>clientSock := - 1\<rparr>, sys_close (clientSock netState) w))"

definition ConsumeBytes :: "64 word \<Rightarrow> JdwpNetState \<Rightarrow> JdwpNetState" where
  "ConsumeBytes byte_count netState =
     netState\<lparr>inputBuffer :=
                 take (unat (inputCount netState - byte_count))
                   (drop (unat byte_count) (inputBuffer netState))
                 @ drop (unat (inputCount netState - byte_count)) (inputBuffer netState),
               inputCount := inputCount netState - byte_count\<rparr>"

definition IsAwaitingHandshake :: "JdwpNetState \<Rightarrow> bool" where
  "IsAwaitingHandshake netState = awaiting_handshake netState"

definition SetAwaitingHandshake :: "bool \<Rightarrow> JdwpNetState \<Rightarrow> JdwpNetState" where
  "SetAwaitingHandshake new_state netState = netState\<lparr>awaiting_handshake := new_state\<rparr>"

subsection \<open>processIncoming\<close>

datatype loop_exit =
    LoopContinue
  | LoopBreak int
  | LoopReturn bool
  | LoopFail
  | LoopAbort
  | LoopStuck

datatype incoming = PReturns bool | PHandlePacket | PAborts | PStuck

text \<open>The descriptors put into \<open>readfds\<close>, and \<open>maxfd\<close>.\<close>

definition select_fds :: "JdwpNetState \<Rightarrow> int list" where
  "select_fds netState =
     (if controlSock netState \<ge> 0 then [controlSock netState] else [])
     @ (if clientSock netState \<ge> 0 then [clientSock netState] else [])
     @ (if fst (wakeFds netState) \<ge> 0 then [fst (wakeFds netState)] else [])"

definition select_maxfd :: "JdwpNetState \<Rightarrow> int" where
  "select_maxfd netState =
     (let maxfd0 = - 1;
          fd1 = controlSock netState;
          maxfd1 = (if fd1 \<ge> 0 then (if maxfd0 < fd1 then fd1 else maxfd0) else maxfd0);
          fd2 = clientSock netState;
          maxfd2 = (if fd2 \<ge> 0 then (if maxfd1 < fd2 then fd2 else maxfd1) else maxfd1);
          fd3 = fst (wakeFds netState);
          maxfd3 = (if fd3 \<ge> 0 then (if maxfd2 < fd3 then fd3 else maxfd2) else maxfd2)
      in maxfd3)"

text \<open>\<open>read(fd, buf + off, count)\<close>: an error, or at most \<open>count\<close> of the bytes that
  the peer has sent, stored at \<open>off\<close>; no bytes is the end of the stream.\<close>

definition sys_read ::
    "int \<Rightarrow> string \<Rightarrow> nat \<Rightarrow> nat \<Rightarrow> world \<Rightarrow> script
      \<Rightarrow> (int \<times> int \<times> string) option \<times> world \<times> script" where
  "sys_read fd buf off count w env =
     (case env of
        ReadErr e # env' \<Rightarrow> (Some (- 1, e, buf), emit (EvRead fd count (- 1)) w, env')
      | ReadData d # env' \<Rightarrow>
          (let got = take count d
           in (Some (int (length got), 0, take off buf @ got @ drop (off + length got) buf),
               emit (EvRead fd count (int (length got))) w, env'))
      | _ \<Rightarrow> (None, w, env))"

text \<open>Lines 416 to 429: the control channel is ready.\<close>

definition drain_control ::
    "int list \<Rightarrow> JdwpNetState \<Rightarrow> world \<Rightarrow> script
      \<Rightarrow> unit outcome \<times> JdwpNetState \<times> world \<times> script" where
  "drain_control readfds netState w env =
     (if controlSock netState \<ge> 0 \<and> controlSock netState \<in> set readfds then
        (case receiveClientFd netState w env of
           (Returns sock, s', w', env') \<Rightarrow>
             if sock \<ge> 0 then
               (Returns (), s',
                sys_close sock (LOG ''Ignoring second debugger -- accepting and dropping'' w'),
                env')
             else if controlSock s' < 0 then (Returns (), s', w', env')
             else (Aborts, s', w', env')
         | (Aborts, s', w', env') \<Rightarrow> (Aborts, s', w', env')
         | (Stuck, s', w', env') \<Rightarrow> (Stuck, s', w', env'))
      else (Returns (), netState, w, env))"

text \<open>Lines 430 to 446: the client channel is ready.  The count of the read is
  \<open>sizeof(inputBuffer) - inputCount\<close> in \<open>size_t\<close>.  When \<open>inputCount\<close> exceeds the
  size of the array, the count wraps around and a read may store past the array, which is
  undefined in the source; the model then keeps the bytes in the list.\<close>

definition read_client ::
    "int list \<Rightarrow> JdwpNetState \<Rightarrow> world \<Rightarrow> script
      \<Rightarrow> loop_exit \<times> JdwpNetState \<times> world \<times> script" where
  "read_client readfds netState w env =
     (if clientSock netState \<ge> 0 \<and> clientSock netState \<in> set readfds then
        (case sys_read (clientSock netState) (inputBuffer netState)
                (unat (inputCount netState))
                (unat (word_of_nat kInputBufferSize - inputCount netState)) w env of
           (None, w', env') \<Rightarrow> (LoopStuck, netState, w', env')
         | (Some (readCount, errno, buf'), w', env') \<Rightarrow>
             if readCount < 0 then
               (if errno \<noteq> EINTR then (LoopFail, netState, w', env')
                else (LoopReturn True, netState, LOG ''+++ EINTR hit'' w', env'))
             else if readCount = 0 then (LoopFail, netState, w', env')
             else (LoopBreak readCount, netState\<lparr>inputBuffer := buf'\<rparr>, w', env'))
      else (LoopContinue, netState, w, env))"

text \<open>One round of the \<open>while (1)\<close> loop.  \<open>select\<close> reports as ready only
  descriptors that were in the set.\<close>

definition select_iteration ::
    "JdwpNetState \<Rightarrow> world \<Rightarrow> script \<Rightarrow> loop_exit \<times> JdwpNetState \<times> world \<times> script" where
  "select_iteration netState w env =
     (let w0 = (if fst (wakeFds netState) \<ge> 0 then w
                else LOG ''NOTE: entering select w/o wakepipe'' w)
      in if select_maxfd netState < 0 then (LoopReturn False, netState, w0, env)
         else
           (case env of
              SelectRes selCount errno ready # env1 \<Rightarrow>
                (let readfds = filter (\<lambda>fd. fd \<in> set (select_fds netState)) ready;
                     w1 = emit (EvSelect (select_fds netState) selCount) w0
                 in if selCount < 0 then
                      (if errno = EINTR then (LoopContinue, netState, w1, env1)
                       else (LoopFail, netState, LOG ''select failed'' w1, env1))
                    else if fst (wakeFds netState) \<ge> 0 \<and> fst (wakeFds netState) \<in> set readfds
                    then (LoopFail, netState,
                          LOG ''Got wake-up signal, bailing out of select'' w1, env1)
                    else
                      (case drain_control readfds netState w1 env1 of
                         (Returns u, s2, w2, env2) \<Rightarrow> read_client readfds s2 w2 env2
                       | (Aborts, s2, w2, env2) \<Rightarrow> (LoopAbort, s2, w2, env2)
                       | (Stuck, s2, w2, env2) \<Rightarrow> (LoopStuck, s2, w2, env2)))
            | _ \<Rightarrow> (LoopStuck, netState, w0, env)))"

text \<open>The \<open>while (1)\<close> loop: it is left by \<open>break\<close> with the count of bytes read,
  by a \<open>return\<close>, or by \<open>goto fail\<close>.\<close>

function select_loop ::
    "JdwpNetState \<Rightarrow> world \<Rightarrow> script \<Rightarrow> loop_exit \<times> JdwpNetState \<times> world \<times> script" where
  "select_loop netState w env =
     (case select_iteration netState w env of
        (r, s', w', env') \<Rightarrow>
          if r = LoopContinue then select_loop s' w' env' else (r, s', w', env'))"
  by pat_completeness auto
termination
proof -
  have recv: "recvmsg_loop fd v e = (q, v', e') \<Longrightarrow> length e' \<le> length e" for fd v e q v' e'
    by (induction fd v e rule: recvmsg_loop.induct) (auto split: option.splits if_splits)
  have rcf: "receiveClientFd s v e = (q, t, v', e') \<Longrightarrow> length e' \<le> length e" for s v e q t v' e'
    by (auto simp: receiveClientFd_def split: prod.splits option.splits if_splits dest: recv)
  have drain: "drain_control fds s v e = (q, t, v', e') \<Longrightarrow> length e' \<le> length e"
    for fds s v e q t v' e'
    by (auto simp: drain_control_def split: prod.splits outcome.splits if_splits dest: rcf)
  have rd: "read_client fds s v e = (LoopContinue, t, v', e') \<Longrightarrow> e' = e" for fds s v e t v' e'
    by (auto simp: read_client_def sys_read_def Let_def
        split: list.splits sysres.splits if_splits)
  have key: "select_iteration s v e = (LoopContinue, t, v', e') \<Longrightarrow> length e' < length e"
    for s v e t v' e'
    by (auto simp: select_iteration_def Let_def
        split: if_splits list.splits sysres.splits prod.splits outcome.splits
        dest!: drain rd)
  show ?thesis
    by (relation "measure (\<lambda>(netState, w, env). length env)") (auto dest: key [OF sym])
qed

declare select_loop.simps [simp del]

text \<open>The label \<open>fail:\<close>.\<close>

definition processIncoming_fail ::
    "JdwpNetState \<Rightarrow> world \<Rightarrow> script \<Rightarrow> incoming \<times> JdwpNetState \<times> world \<times> script" where
  "processIncoming_fail netState w env =
     (case Close netState w of (s', w') \<Rightarrow> (PReturns False, s', w', env))"

text \<open>Lines 463 to 487: the handshake, or the hand-over of the packet to
  \<open>JdwpState::HandlePacket\<close>, which is outside this file (\<open>PHandlePacket\<close>).\<close>

definition processIncoming_packet ::
    "JdwpNetState \<Rightarrow> world \<Rightarrow> script \<Rightarrow> incoming \<times> JdwpNetState \<times> world \<times> script" where
  "processIncoming_packet netState w env =
     (if IsAwaitingHandshake netState then
        (if take kMagicHandshakeLen (inputBuffer netState) \<noteq> kMagicHandshake
         then processIncoming_fail netState (LOG ''ERROR: bad handshake'' w) env
         else
           (case write_retry (clientSock netState)
                   (take kMagicHandshakeLen (inputBuffer netState)) w env of
              (None, w', env') \<Rightarrow> (PStuck, netState, w', env')
            | (Some cc, w', env') \<Rightarrow>
                if cc \<noteq> int kMagicHandshakeLen
                then processIncoming_fail netState (LOG ''Failed writing handshake bytes'' w') env'
                else (PReturns True,
                      SetAwaitingHandshake False
                        (ConsumeBytes (word_of_nat kMagicHandshakeLen) netState),
                      w', env')))
      else (PHandlePacket, netState, w, env))"

text \<open>\<open>JdwpNetStateBase::HaveFullPacket\<close> is declared in jdwp_priv.h and defined
  outside the sources at hand: it is the parameter \<open>HaveFullPacket\<close>.\<close>

definition processIncoming ::
    "(JdwpNetState \<Rightarrow> bool) \<Rightarrow> JdwpNetState \<Rightarrow> world \<Rightarrow> script
      \<Rightarrow> incoming \<times> JdwpNetState \<times> world \<times> script" where
  "processIncoming HaveFullPacket netState w env =
     (if \<not> clientSock netState \<ge> 0 then (PAborts, netState, w, env)
      else if \<not> HaveFullPacket netState then
        (case select_loop netState w env of
           (LoopBreak readCount, s1, w1, env1) \<Rightarrow>
             (let s2 = s1\<lparr>inputCount := inputCount s1 + word_of_int readCount\<rparr>
              in if \<not> HaveFullPacket s2 then (PReturns True, s2, w1, env1)
                 else processIncoming_packet s2 w1 env1)
         | (LoopReturn b, s1, w1, env1) \<Rightarrow> (PReturns b, s1, w1, env1)
         | (LoopFail, s1, w1, env1) \<Rightarrow> processIncoming_fail s1 w1 env1
         | (LoopAbort, s1, w1, env1) \<Rightarrow> (PAborts, s1, w1, env1)
         | (LoopStuck, s1, w1, env1) \<Rightarrow> (PStuck, s1, w1, env1)
         | (LoopContinue, s1, w1, env1) \<Rightarrow> (PStuck, s1, w1, env1))
      else processIncoming_packet netState w env)"

section \<open>Observations on runs\<close>

definition res_outcome :: "'a \<times> 's \<times> world \<times> script \<Rightarrow> 'a" where
  "res_outcome x = fst x"

definition res_state :: "'a \<times> 's \<times> world \<times> script \<Rightarrow> 's" where
  "res_state x = fst (snd x)"

definition res_world :: "'a \<times> 's \<times> world \<times> script \<Rightarrow> world" where
  "res_world x = fst (snd (snd x))"

definition res_script :: "'a \<times> 's \<times> world \<times> script \<Rightarrow> script" where
  "res_script x = snd (snd (snd x))"

text \<open>The arguments of the \<open>usleep\<close> calls of a trace, in order.\<close>

fun usleep_of :: "event \<Rightarrow> int list" where
  "usleep_of (EvUsleep us) = [us]"
| "usleep_of e = []"

definition usleeps :: "event list \<Rightarrow> int list" where
  "usleeps tr = concat (map usleep_of tr)"

text \<open>The backoff in milliseconds as a sequence: 500, then 1.5 times the previous value,
  rounded down and capped at 2000.\<close>

fun sleep_ms_seq :: "nat \<Rightarrow> int" where
  "sleep_ms_seq 0 = 500"
| "sleep_ms_seq (Suc k) = min 2000 (sleep_ms_seq k * 3 div 2)"

text \<open>The world after a run of failed \<open>connect\<close> calls, each followed by its sleep.\<close>

fun failed_connects :: "int \<Rightarrow> nat \<Rightarrow> int list \<Rightarrow> world \<Rightarrow> world" where
  "failed_connects fd m [] w = w"
| "failed_connects fd m (r # rs) w =
     failed_connects fd (Suc m) rs (emit (EvUsleep (sleep_ms_seq m * 1000)) (emit (EvConnect fd r) w))"

text \<open>A state as \<open>startup\<close> leaves it, and a world with the standard descriptors.\<close>

definition fresh_state :: JdwpNetState where
  "fresh_state = JdwpNetState_new (- 1) [] 0 False"

definition boot_world :: world where
  "boot_world = \<lparr>open_fds = {0, 1, 2}, trace = [], logs = []\<rparr>"

text \<open>The four-digit, zero-padded, lowercase hexadecimal rendering of a 16-bit value.\<close>

definition hex4 :: "nat \<Rightarrow> string" where
  "hex4 n = [hex_digit (n div 4096 mod 16), hex_digit (n div 256 mod 16),
             hex_digit (n div 16 mod 16), hex_digit (n mod 16)]"

text \<open>A \<open>recvmsg\<close> result that the loop of \<open>receiveClientFd\<close> retries when the return
  value is negative: \<open>errno\<close> is \<open>EINTR\<close>.\<close>

definition interrupted :: "int \<times> int option \<Rightarrow> sysres" where
  "interrupted x = RecvmsgRes (fst x) EINTR (snd x)"

text \<open>An instance of the parameter \<open>HaveFullPacket\<close> for the examples: while the
  handshake is awaited the chunk waited for is the 14 bytes of the handshake; afterwards a
  packet is complete when the 11-byte header is buffered and the buffered bytes reach
  the length that the first four bytes declare (big-endian).\<close>

definition Get4BE :: "string \<Rightarrow> nat" where
  "Get4BE buf = foldl (\<lambda>a c. a * 256 + of_char c) 0 (take 4 buf)"

definition example_HaveFullPacket :: "JdwpNetState \<Rightarrow> bool" where
  "example_HaveFullPacket netState =
     (if awaiting_handshake netState then kMagicHandshakeLen \<le> unat (inputCount netState)
      else kJDWPHeaderLen \<le> unat (inputCount netState)
           \<and> Get4BE (inputBuffer netState) \<le> unat (inputCount netState))"

text \<open>A state with a debugger attached (control channel 3, wake channel 4 and 5, client
  channel 6), and a world in which these descriptors are open.\<close>

definition attached_state :: JdwpNetState where
  "attached_state =
     \<lparr>clientSock = 6, inputBuffer = replicate 8192 CHR 0x00, inputCount = 0,
      awaiting_handshake = True, controlSock = 3, shuttingDown = False, wakeFds = (4, 5)\<rparr>"

definition attached_world :: world where
  "attached_world = \<lparr>open_fds = {0, 1, 2, 3, 4, 5, 6}, trace = [], logs = []\<rparr>"

text \<open>The world after the \<open>select\<close> call of one round of the wait loop.\<close>

definition after_select :: "JdwpNetState \<Rightarrow> int \<Rightarrow> world \<Rightarrow> world" where
  "after_select netState selCount w =
     emit (EvSelect (select_fds netState) selCount)
       (if fst (wakeFds netState) \<ge> 0 then w
        else LOG ''NOTE: entering select w/o wakepipe'' w)"

text \<open>The \<open>write\<close> calls of a trace.\<close>

fun is_write :: "event \<Rightarrow> bool" where
  "is_write (EvWrite fd buf r) = True"
| "is_write e = False"

definition writes :: "event list \<Rightarrow> event list" where
  "writes tr = filter is_write tr"

text \<open>The attached state with the handshake buffered, followed by an 11-byte header
  that declares length 11.\<close>

definition handshake_state :: JdwpNetState where
  "handshake_state =
     attached_state\<lparr>inputBuffer :=
         ''JDWP-Handshake''
         @ [CHR 0x00, CHR 0x00, CHR 0x00, CHR 0x0B, CHR 0x00, CHR 0x00, CHR 0x00, CHR 0x01,
            CHR 0x80, CHR 0x00, CHR 0x00]
         @ replicate 8167 CHR 0x00,
       inputCount := 25\<rparr>"

text \<open>The \<open>recvmsg\<close> calls of a trace that \<open>receiveClientFd\<close> does not retry: each
  call of \<open>receiveClientFd\<close> that returns makes exactly one.\<close>

fun completed_recv :: "event \<Rightarrow> bool" where
  "completed_recv (EvRecvmsg fd r e) = (\<not> (r < 0 \<and> e = EINTR))"
| "completed_recv ev = False"

definition recv_calls :: "event list \<Rightarrow> nat" where
  "recv_calls tr = length (filter completed_recv tr)"

text \<open>How often the log holds the message of the exhausted retries.\<close>

definition exceeded_logged :: "world \<Rightarrow> nat" where
  "exceeded_logged w = count_list (logs w) ''adb connection max retries exceeded''"

text \<open>The world after a failed receive: the call is logged when it returned an error,
  and the control channel is closed.\<close>

definition after_failed_receive :: "JdwpNetState \<Rightarrow> int \<Rightarrow> int \<Rightarrow> world \<Rightarrow> world" where
  "after_failed_receive netState ret e w =
     sys_close (controlSock netState)
       (if ret < 0
        then LOG ''Receiving file descriptor from ADB failed''
               (emit (EvRecvmsg (controlSock netState) ret e) w)
        else emit (EvRecvmsg (controlSock netState) ret e) w)"

text \<open>Six rounds in which the control channel is opened and announced and the broker then
  closes it.  Each round gets descriptor 3 for the socket again and a new pair for the
  pipe.\<close>

definition failed_round :: "int \<Rightarrow> script" where
  "failed_round k =
     [SocketRes 3, PipeRes 0 (2 * k) (2 * k + 1), ConnectRes 0, SendRes 4 0, RecvmsgRes 0 0 None]"

definition six_failures :: script where
  "six_failures = concat (map failed_round [2, 3, 4, 5, 6, 7])"

text \<open>The \<open>write\<close> calls of a trace that put bytes on the client channel.\<close>

fun is_echo :: "event \<Rightarrow> bool" where
  "is_echo (EvWrite fd buf r) = (0 < r)"
| "is_echo e = False"

definition echoes :: "event list \<Rightarrow> nat" where
  "echoes tr = length (filter is_echo tr)"

text \<open>The state after a read that stored the bytes \<open>d\<close> behind the buffered ones and
  the addition of their number to \<open>inputCount\<close>.\<close>

definition after_read :: "JdwpNetState \<Rightarrow> string \<Rightarrow> JdwpNetState" where
  "after_read netState d =
     netState\<lparr>inputBuffer :=
                 take (unat (inputCount netState)) (inputBuffer netState) @ d
                 @ drop (unat (inputCount netState) + length d) (inputBuffer netState),
               inputCount := inputCount netState + word_of_nat (length d)\<rparr>"

text \<open>The handshake, followed by an 11-byte header that declares length 11.\<close>

definition handshake_then_header :: string where
  "handshake_then_header =
     ''JDWP-Handshake''
     @ [CHR 0x00, CHR 0x00, CHR 0x00, CHR 0x0B, CHR 0x00, CHR 0x00, CHR 0x00, CHR 0x01,
        CHR 0x80, CHR 0x00, CHR 0x00]"

text \<open>Successive calls of \<open>processIncoming\<close> on one connection, each on the state, the
  world and the rest of the script that the call before left.  What the packet handler
  does between two calls is outside this file.\<close>

fun serve ::
    "(JdwpNetState \<Rightarrow> bool) \<Rightarrow> nat \<Rightarrow> JdwpNetState \<Rightarrow> world \<Rightarrow> script
      \<Rightarrow> JdwpNetState \<times> world \<times> script" where
  "serve HaveFullPacket 0 netState w env = (netState, w, env)"
| "serve HaveFullPacket (Suc n) netState w env =
     (case processIncoming HaveFullPacket netState w env of
        (r, s', w', env') \<Rightarrow> serve HaveFullPacket n s' w' env')"

text \<open>The world after the control channel has been opened, connected and announced.\<close>

definition connected_world :: "int \<Rightarrow> int \<Rightarrow> int \<Rightarrow> int \<Rightarrow> int \<Rightarrow> int \<Rightarrow> world \<Rightarrow> world" where
  "connected_world pid fd r a b n w =
     emit (EvSend fd (take 4 (snprintf_04x 5 pid)) n)
       (emit (EvConnect fd 0)
          (emit (EvPipe r a b)
             (fd_install b (fd_install a (emit (EvSocket fd) (fd_install fd w))))))"

text \<open>A round under \<open>HAVE_ANDROID_OS\<close> with a trusted peer; the broker then closes the
  control channel (\<open>None\<close>) or passes a descriptor.\<close>

definition android_round :: "int \<Rightarrow> int option \<Rightarrow> script" where
  "android_round k anc =
     [SocketRes 3, PipeRes 0 (2 * k) (2 * k + 1), ConnectRes 0, PeerTrusted True, SendRes 4 0,
      RecvmsgRes (if anc = None then 0 else 1) 0 anc]"

section \<open>Projections of a result\<close>

lemma res_simps:
  "res_outcome (a, b, c, d) = a" "res_state (a, b, c, d) = b"
  "res_world (a, b, c, d) = c" "res_script (a, b, c, d) = d"
  by (simp_all add: res_outcome_def res_state_def res_world_def res_script_def)

section \<open>The reconnect backoff\<close>

lemma sleep_ms_seq_bounds: "500 \<le> sleep_ms_seq k \<and> sleep_ms_seq k \<le> 2000"
  by (induction k) auto

lemma three_halves: "(x::int) * 3 div 2 = x + x div 2"
proof -
  have "x * 3 = x + x * 2" by simp
  then show ?thesis by (simp only: div_mult_self2 [of 2 x x, simplified])
qed

lemma backoff_step:
  "(if sleep_ms_seq m + sleep_ms_seq m div 2 > 2 * 1000 then 2 * 1000
    else sleep_ms_seq m + sleep_ms_seq m div 2) = sleep_ms_seq (Suc m)"
  by (simp add: three_halves min_def)

lemma usleeps_simps [simp]:
  "usleeps [] = []"
  "usleeps (e # es) = usleep_of e @ usleeps es"
  "usleeps (xs @ ys) = usleeps xs @ usleeps ys"
  by (simp_all add: usleeps_def)

lemma usleeps_failed_connects:
  "usleeps (trace (failed_connects fd m rs w)) =
     usleeps (trace w) @ map (\<lambda>k. sleep_ms_seq k * 1000) [m..<m + length rs]"
proof (induction rs arbitrary: m w)
  case Nil
  then show ?case by simp
next
  case (Cons r rs)
  have "[m..<m + length (r # rs)] = m # [Suc m..<Suc m + length rs]"
    by (simp add: upt_conv_Cons del: upt_Suc)
  then show ?case
    by (simp add: Cons.IH emit_def del: upt_Suc)
qed

lemma connect_loop_failures:
  assumes "\<not> shuttingDown s" and "\<forall>x\<in>set rs. x \<noteq> 0"
  shows "connect_loop android buff (sleep_ms_seq m) s w (map ConnectRes rs @ env) =
         connect_loop android buff (sleep_ms_seq (m + length rs)) s
           (failed_connects (controlSock s) m rs w) env"
  using assms
proof (induction rs arbitrary: m w)
  case Nil
  then show ?case by simp
next
  case (Cons r rs)
  from Cons.prems have r: "r \<noteq> 0" and rs: "\<forall>x\<in>set rs. x \<noteq> 0"
    by simp_all
  have "connect_loop android buff (sleep_ms_seq m) s w (map ConnectRes (r # rs) @ env) =
        connect_loop android buff (sleep_ms_seq (Suc m)) s
          (emit (EvUsleep (sleep_ms_seq m * 1000)) (emit (EvConnect (controlSock s) r) w))
          (map ConnectRes rs @ env)"
    using r Cons.prems(1) backoff_step [of m] by (simp add: Let_def del: sleep_ms_seq.simps)
  then show ?case
    using Cons.IH [OF Cons.prems(1) rs, of "Suc m"] by simp
qed

text \<open>
  C6, as it holds of the code.  After any number of consecutive failed \<open>connect\<close> attempts in
  \<open>acceptConnection\<close>, the sleeps made between the attempts are, in milliseconds, the
  first values of the sequence that starts at 500 and continues with the previous value
  times 1.5, rounded down to a whole millisecond and capped at 2000; no sleep exceeds
  2000 ms.
\<close>

theorem C6_backoff:
  assumes "\<not> shuttingDown netState" and "controlSock netState < 0"
    and "0 \<le> fd" and "0 \<le> r" and "\<forall>x\<in>set rs. x \<noteq> 0"
  shows "usleeps (trace (res_world (acceptConnection android pid netState w
            (SocketRes fd # PipeRes r a b # map ConnectRes rs))))
         = usleeps (trace w) @ map (\<lambda>k. sleep_ms_seq k * 1000) [0..<length rs]
       \<and> sleep_ms_seq 0 = 500
       \<and> (\<forall>k. sleep_ms_seq (Suc k) = min 2000 (sleep_ms_seq k * 3 div 2))
       \<and> (\<forall>k. sleep_ms_seq k \<le> 2000)"
proof -
  let ?s2 = "netState\<lparr>controlSock := fd, wakeFds := (a, b)\<rparr>"
  let ?w2 = "emit (EvPipe r a b) (fd_install b (fd_install a (emit (EvSocket fd) (fd_install fd w))))"
  have sd: "\<not> shuttingDown ?s2" using assms(1) by simp
  have "connect_loop android (snprintf_04x 5 pid) (sleep_ms_seq 0) ?s2 ?w2 (map ConnectRes rs @ [])
        = connect_loop android (snprintf_04x 5 pid) (sleep_ms_seq (0 + length rs)) ?s2
            (failed_connects (controlSock ?s2) 0 rs ?w2) []"
    by (rule connect_loop_failures [OF sd assms(5)])
  then have "res_world (acceptConnection android pid netState w
            (SocketRes fd # PipeRes r a b # map ConnectRes rs)) = failed_connects fd 0 rs ?w2"
    using assms(1-4)
    by (subst acceptConnection_def, subst accept_retry.simps)
      (simp add: connect_control_def Let_def res_world_def)
  then show ?thesis
    using sleep_ms_seq_bounds
    by (simp add: usleeps_failed_connects emit_def fd_install_def)
qed

theorem C6_backoff_witness:
  "\<not> shuttingDown fresh_state \<and> controlSock fresh_state < 0
   \<and> usleeps (trace (res_world (acceptConnection False 4321 fresh_state boot_world
        (SocketRes 3 # PipeRes 0 4 5 # map ConnectRes [- 1, - 1, - 1, - 1, - 1]))))
      = [500000, 750000, 1125000, 1687000, 2000000]"
proof -
  have h1: "\<not> shuttingDown fresh_state" and h2: "controlSock fresh_state < 0"
    by (simp_all add: fresh_state_def JdwpNetState_new_def)
  have h5: "\<forall>x\<in>set [- 1, - 1, - 1, - 1, - 1 :: int]. x \<noteq> 0" by simp
  have "[0..<5] = [0, 1, 2, 3, 4::nat]" by (simp add: upt_rec)
  moreover have "sleep_ms_seq 1 = 750" "sleep_ms_seq 2 = 1125" "sleep_ms_seq 3 = 1687" "sleep_ms_seq 4 = 2000"
    by (simp_all add: numeral_2_eq_2 numeral_3_eq_3 eval_nat_numeral)
  ultimately show ?thesis
    using C6_backoff [OF h1 h2, of 3 0 "[- 1, - 1, - 1, - 1, - 1]" False 4321 boot_world 4 5] h1 h2
    by (simp add: boot_world_def)
qed

text \<open>
  C6 as the spec states it fails: the step from the third sleep (1125 ms) to the fourth (1687 ms) is
  not a multiplication by exactly 1.5, and the cap has not been reached.
\<close>

theorem C6_exact_factor_counterexample:
  "usleeps (trace (res_world (acceptConnection False 4321 fresh_state boot_world
      [SocketRes 3, PipeRes 0 4 5, ConnectRes (- 1), ConnectRes (- 1), ConnectRes (- 1),
       ConnectRes (- 1)])))
     = [500000, 750000, 1125000, 1687000]
   \<and> (1687000::int) * 2 \<noteq> 1125000 * 3 \<and> (1687000::int) < 2000 * 1000"
  by (simp add: acceptConnection_def accept_retry.simps fresh_state_def boot_world_def
      JdwpNetState_new_def connect_control_def Let_def emit_def fd_install_def
      res_world_def cong: prod.case_cong_weak)


section \<open>The identity announcement\<close>

lemma length_snprintf_04x: "length (snprintf_04x 5 v) = 4"
  by (simp add: snprintf_04x_def format_04x_def Let_def)

lemma hex_digit_0: "hex_digit 0 = CHR ''0''"
  by (simp add: hex_digit_def)

lemma replicate_small:
  "replicate 3 c = [c, c, c]" "replicate 2 c = [c, c]"
  by (simp_all add: numeral_3_eq_3 numeral_2_eq_2)

lemma hex_digit_mod: "hex_digit (d mod 16) = hex_digit d"
  by (simp add: hex_digit_def)

lemma hex_of_lt_65536:
  assumes "n < 65536"
  shows "replicate (4 - length (hex_of n)) CHR ''0'' @ hex_of n = hex4 n"
proof -
  have d2: "n div 16 div 16 = n div 256" and d3: "n div 256 div 16 = n div 4096"
    by (simp_all add: div_mult2_eq [symmetric])
  consider "n < 16" | "16 \<le> n" "n < 256" | "256 \<le> n" "n < 4096" | "4096 \<le> n"
    by linarith
  then show ?thesis
  proof cases
    case 1
    then show ?thesis
      by (simp add: hex_of.simps [of n] hex4_def hex_digit_mod hex_digit_0 replicate_small)
  next
    case 2
    then have "n div 16 < 16" by simp
    with 2 show ?thesis
      by (simp add: hex_of.simps [of n] hex_of.simps [of "n div 16"] hex4_def hex_digit_mod hex_digit_0
          replicate_small)
  next
    case 3
    then have "n div 16 \<ge> 16" "n div 256 < 16" by simp_all
    with 3 show ?thesis
      by (simp add: hex_of.simps [of n] hex_of.simps [of "n div 16"]
          hex_of.simps [of "n div 256"] hex4_def hex_digit_mod hex_digit_0 d2)
  next
    case 4
    with assms have "n div 16 \<ge> 16" "n div 256 \<ge> 16" "n div 4096 < 16"
      by simp_all
    with 4 show ?thesis
      by (simp add: hex_of.simps [of n] hex_of.simps [of "n div 16"]
          hex_of.simps [of "n div 256"] hex_of.simps [of "n div 4096"]
          hex4_def hex_digit_mod d2 d3)
  qed
qed

lemma snprintf_04x_lt_65536:
  assumes "0 \<le> pid" "pid < 65536"
  shows "snprintf_04x 5 pid = hex4 (nat pid)"
proof -
  have "nat (pid mod 2 ^ 32) = nat pid" using assms by simp
  moreover have "nat pid < 65536" using assms by simp
  ultimately show ?thesis
    by (simp add: snprintf_04x_def format_04x_def Let_def hex_of_lt_65536 hex4_def)
qed

text \<open>
  C3, as it holds of the code.  For every process identifier from 0 to 65535, the announcement that
  \<open>acceptConnection\<close> sends right after a successful connect is exactly four ASCII
  bytes: the lowercase, zero-padded hexadecimal rendering of the identifier, with no
  terminator.  Identifier 4321 is announced as \<open>10e1\<close>.
\<close>

theorem C3_identity_announcement:
  assumes "\<not> shuttingDown netState" and "controlSock netState < 0"
    and "0 \<le> fd" and "0 \<le> r" and "\<not> (n = - 1 \<and> e = EINTR)"
    and "0 \<le> pid" and "pid < 65536"
  shows "trace (res_world (acceptConnection android pid netState w
            (SocketRes fd # PipeRes r a b # ConnectRes 0
               # (if android then [PeerTrusted True] else []) @ [SendRes n e])))
         = trace w @ [EvSocket fd, EvPipe r a b, EvConnect fd 0, EvSend fd (hex4 (nat pid)) n]
       \<and> length (hex4 (nat pid)) = 4"
proof -
  have buff: "take 4 (snprintf_04x 5 pid) = hex4 (nat pid)"
    using assms(6,7) by (simp add: snprintf_04x_lt_65536) (simp add: hex4_def)
  show ?thesis
    using assms(1-5)
    by (subst acceptConnection_def, subst accept_retry.simps)
      (cases android;
        simp add: connect_control_def Let_def buff res_world_def emit_def fd_install_def
          receiveClientFd_def LOG_def hex4_def)
qed

theorem C3_identity_announcement_witness:
  "trace (res_world (acceptConnection False 4321 fresh_state boot_world
      [SocketRes 3, PipeRes 0 4 5, ConnectRes 0, SendRes 4 0]))
     = [EvSocket 3, EvPipe 0 4 5, EvConnect 3 0, EvSend 3 ''10e1'' 4]"
proof -
  have h: "\<not> shuttingDown fresh_state" "controlSock fresh_state < 0"
    by (simp_all add: fresh_state_def JdwpNetState_new_def)
  have x: "hex4 4321 = ''10e1''"
    by (simp add: hex4_def hex_digit_def)
  show ?thesis
    using C3_identity_announcement [OF h, of 3 0 4 0 4321 False boot_world 4 5]
    by (simp add: x EINTR_def boot_world_def)
qed

text \<open>
  C3 as the spec states it fails above 65535: \<open>snprintf\<close> cuts the rendering after its first four
  digits, so identifier 74565 (hexadecimal 12345) is announced as \<open>1234\<close>, while its
  low 16 bits render as \<open>2345\<close>.
\<close>

theorem C3_low_16_bits_counterexample:
  "trace (res_world (acceptConnection False 74565 fresh_state boot_world
      [SocketRes 3, PipeRes 0 4 5, ConnectRes 0, SendRes 4 0]))
     = [EvSocket 3, EvPipe 0 4 5, EvConnect 3 0, EvSend 3 ''1234'' 4]
   \<and> hex4 (74565 mod 65536) = ''2345''"
  by (simp add: acceptConnection_def accept_retry.simps fresh_state_def boot_world_def
      JdwpNetState_new_def connect_control_def Let_def emit_def fd_install_def
      res_world_def receiveClientFd_def snprintf_04x_def format_04x_def hex_of.simps
      hex_digit_def hex4_def cong: prod.case_cong_weak)

section \<open>receiveClientFd\<close>

lemma recvmsg_loop_interrupted:
  assumes "list_all (\<lambda>x. fst x < 0) pre"
  shows "recvmsg_loop fd w (map interrupted pre @ env) =
         recvmsg_loop fd (w\<lparr>trace := trace w @ map (\<lambda>x. EvRecvmsg fd (fst x) EINTR) pre\<rparr>) env"
  using assms
proof (induction pre arbitrary: w)
  case Nil
  then show ?case by simp
next
  case (Cons x pre)
  then have "fst x < 0" and rest: "list_all (\<lambda>x. fst x < 0) pre"
    by simp_all
  then have "recvmsg_loop fd w (map interrupted (x # pre) @ env) =
        recvmsg_loop fd (emit (EvRecvmsg fd (fst x) EINTR) w) (map interrupted pre @ env)"
    by (simp add: interrupted_def)
  also have "\<dots> = recvmsg_loop fd
       ((emit (EvRecvmsg fd (fst x) EINTR) w)
          \<lparr>trace := trace (emit (EvRecvmsg fd (fst x) EINTR) w)
                      @ map (\<lambda>x. EvRecvmsg fd (fst x) EINTR) pre\<rparr>) env"
    by (rule Cons.IH [OF rest])
  finally show ?case
    by (simp add: emit_def)
qed

text \<open>
  C7.  Whenever the blocking receive of \<open>receiveClientFd\<close> returns 0 or a negative
  result, after any number of calls interrupted by \<open>EINTR\<close> that it retries,
  \<open>receiveClientFd\<close> closes the control channel, sets \<open>controlSock\<close> to \<open>-1\<close> and
  returns \<open>-1\<close>; it makes no further receive call (the rest of the script is untouched).
\<close>

theorem C7_receive_failure:
  assumes "list_all (\<lambda>x. fst x < 0) pre" and "ret \<le> 0" and "\<not> (ret < 0 \<and> e = EINTR)"
  shows "res_outcome (receiveClientFd netState w
            (map interrupted pre @ RecvmsgRes ret e anc # env)) = Returns (- 1)
       \<and> res_state (receiveClientFd netState w
            (map interrupted pre @ RecvmsgRes ret e anc # env)) = netState\<lparr>controlSock := - 1\<rparr>
       \<and> trace (res_world (receiveClientFd netState w
            (map interrupted pre @ RecvmsgRes ret e anc # env)))
          = trace w @ map (\<lambda>x. EvRecvmsg (controlSock netState) (fst x) EINTR) pre
              @ [EvRecvmsg (controlSock netState) ret e, EvClose (controlSock netState)]
       \<and> open_fds (res_world (receiveClientFd netState w
            (map interrupted pre @ RecvmsgRes ret e anc # env)))
          = open_fds w - {controlSock netState}
       \<and> res_script (receiveClientFd netState w
            (map interrupted pre @ RecvmsgRes ret e anc # env)) = env"
  using assms(2,3)
  by (cases anc)
    (auto simp: receiveClientFd_def recvmsg_loop_interrupted [OF assms(1)] res_outcome_def
      res_state_def res_world_def res_script_def emit_def sys_close_def LOG_def)

theorem C7_receive_failure_witness:
  "res_outcome (receiveClientFd attached_state attached_world
      [RecvmsgRes (- 1) EINTR None, RecvmsgRes 0 0 None, RecvmsgRes 1 0 (Some 7)]) = Returns (- 1)
   \<and> controlSock (res_state (receiveClientFd attached_state attached_world
      [RecvmsgRes (- 1) EINTR None, RecvmsgRes 0 0 None, RecvmsgRes 1 0 (Some 7)])) = - 1
   \<and> trace (res_world (receiveClientFd attached_state attached_world
      [RecvmsgRes (- 1) EINTR None, RecvmsgRes 0 0 None, RecvmsgRes 1 0 (Some 7)]))
      = [EvRecvmsg 3 (- 1) EINTR, EvRecvmsg 3 0 0, EvClose 3]
   \<and> open_fds (res_world (receiveClientFd attached_state attached_world
      [RecvmsgRes (- 1) EINTR None, RecvmsgRes 0 0 None, RecvmsgRes 1 0 (Some 7)]))
      = {0, 1, 2, 4, 5, 6}
   \<and> res_script (receiveClientFd attached_state attached_world
      [RecvmsgRes (- 1) EINTR None, RecvmsgRes 0 0 None, RecvmsgRes 1 0 (Some 7)])
      = [RecvmsgRes 1 0 (Some 7)]"
proof -
  have h1: "list_all (\<lambda>x. fst x < 0) [(- 1 :: int, None :: int option)]" by simp
  have h2: "(0::int) \<le> 0" by simp
  have h3: "\<not> ((0::int) < 0 \<and> (0::int) = EINTR)" by simp
  have s: "{0, 1, 2, 3, 4, 5, 6} - {3} = {0, 1, 2, 4, 5, 6 :: int}" by auto
  show ?thesis
    using C7_receive_failure [OF h1 h2 h3, of attached_state attached_world None
        "[RecvmsgRes 1 0 (Some 7)]"]
    by (simp add: interrupted_def) (simp add: attached_state_def attached_world_def s)
qed

text \<open>
  C10 fails on the code.  When \<open>recvmsg\<close> returns a positive count for a message
  that carries no descriptor, the control buffer still holds its initial \<open>-1\<close>:
  \<open>receiveClientFd\<close> returns \<open>-1\<close> with the control channel still open and
  \<open>controlSock\<close> still set, against its own comment (on failure, returns -1 and closes
  netState->controlSock), and the \<open>CHECK_LT(netState->controlSock, 0)\<close> of
  \<open>processIncoming\<close> fails.
\<close>

theorem C10_receive_without_descriptor:
  "res_outcome (receiveClientFd attached_state attached_world [RecvmsgRes 1 0 None])
     = Returns (- 1)
   \<and> controlSock (res_state (receiveClientFd attached_state attached_world
        [RecvmsgRes 1 0 None])) = 3
   \<and> 3 \<in> open_fds (res_world (receiveClientFd attached_state attached_world
        [RecvmsgRes 1 0 None]))
   \<and> res_outcome (processIncoming example_HaveFullPacket attached_state attached_world
        [SelectRes 1 0 [3], RecvmsgRes 1 0 None]) = PAborts"
  by (simp add: receiveClientFd_def res_outcome_def res_state_def res_world_def
      attached_state_def attached_world_def emit_def processIncoming_def
      example_HaveFullPacket_def kMagicHandshakeLen_def kMagicHandshake_def
      select_loop.simps select_iteration_def select_maxfd_def select_fds_def Let_def
      drain_control_def cong: prod.case_cong_weak)

section \<open>Shutdown and free\<close>

text \<open>
  C2 fails on the code.  \<open>netShutdown\<close> only calls \<open>shutdown(2)\<close> on the client and
  control channels and sets both fields to \<open>-1\<close>; \<open>netFree\<close> then finds them unset
  and closes the two ends of the wake channel only.  Descriptors 3 and 6 stay open, and
  no field of the state names them any more.
\<close>

theorem C2_shutdown_then_free_leaves_sockets_open:
  "netShutdown (Some attached_state) attached_world [WriteRes 1 0]
     = (Returns (),
        Some (attached_state\<lparr>clientSock := - 1, controlSock := - 1, shuttingDown := True\<rparr>),
        attached_world\<lparr>trace := [EvShutdown 6, EvShutdown 3, EvWrite 5 [CHR 0x00] 1]\<rparr>, [])
   \<and> netFree (Some (attached_state\<lparr>clientSock := - 1, controlSock := - 1, shuttingDown := True\<rparr>))
        (attached_world\<lparr>trace := [EvShutdown 6, EvShutdown 3, EvWrite 5 [CHR 0x00] 1]\<rparr>)
     = \<lparr>open_fds = {0, 1, 2, 3, 6},
        trace = [EvShutdown 6, EvShutdown 3, EvWrite 5 [CHR 0x00] 1, EvClose 4, EvClose 5],
        logs = []\<rparr>"
proof -
  have s: "{0, 1, 2, 3, 4, 5, 6} - {4} - {5} = {0, 1, 2, 3, 6 :: int}" by auto
  show ?thesis
    by (simp add: netShutdown_def adbStateShutdown_def netFree_def adbStateFree_def
      attached_state_def attached_world_def Let_def sys_shutdown_def sys_close_def emit_def s)
qed

section \<open>The wake channel\<close>

text \<open>
  C9 fails on the code.  \<open>pipe(netState->wakeFds)\<close> is called whenever the control
  channel has to be opened, whether or not a wake channel exists.  Here the first
  receive fails (the broker closes the connection), the retry opens the control channel
  again and a second pipe (6, 7) replaces the first (4, 5), whose descriptors stay open.
\<close>

theorem C9_second_pipe_replaces_first:
  "acceptConnection False 4321 fresh_state boot_world
     [SocketRes 3, PipeRes 0 4 5, ConnectRes 0, SendRes 4 0, RecvmsgRes 0 0 None,
      SocketRes 3, PipeRes 0 6 7, ConnectRes 0, SendRes 4 0, RecvmsgRes 1 0 (Some 8)]
   = (Returns True,
      \<lparr>clientSock = 8, inputBuffer = [], inputCount = 0, awaiting_handshake = True,
       controlSock = 3, shuttingDown = False, wakeFds = (6, 7)\<rparr>,
      \<lparr>open_fds = {0, 1, 2, 3, 4, 5, 6, 7, 8},
       trace = [EvSocket 3, EvPipe 0 4 5, EvConnect 3 0, EvSend 3 ''10e1'' 4,
                EvRecvmsg 3 0 0, EvClose 3,
                EvSocket 3, EvPipe 0 6 7, EvConnect 3 0, EvSend 3 ''10e1'' 4,
                EvRecvmsg 3 1 0],
       logs = []\<rparr>,
      [])"
proof -
  have s: "{8, 7, 6, 3, 5, 4, 0, 1, 2} = {0, 1, 2, 3, 4, 5, 6, 7, 8 :: int}" by auto
  show ?thesis
  by (simp add: acceptConnection_def accept_retry.simps fresh_state_def boot_world_def
      JdwpNetState_new_def connect_control_def Let_def emit_def fd_install_def sys_close_def
      receiveClientFd_def snprintf_04x_def format_04x_def hex_of.simps
      hex_digit_def insert_Diff_if s cong: prod.case_cong_weak)
qed


section \<open>processIncoming: the wait loop\<close>

lemma select_maxfd_client: "0 \<le> clientSock s \<Longrightarrow> \<not> select_maxfd s < 0"
  by (simp add: select_maxfd_def Let_def)

lemma client_in_select_fds: "0 \<le> clientSock s \<Longrightarrow> clientSock s \<in> set (select_fds s)"
  by (simp add: select_fds_def)

lemma control_in_select_fds: "0 \<le> controlSock s \<Longrightarrow> controlSock s \<in> set (select_fds s)"
  by (simp add: select_fds_def)

lemma receiveClientFd_client:
  assumes "receiveClientFd s w env = (q, s', w', env')"
  shows "clientSock s' = clientSock s \<and> inputBuffer s' = inputBuffer s
       \<and> inputCount s' = inputCount s"
  using assms
  by (auto simp: receiveClientFd_def split: prod.splits option.splits if_splits)

lemma drain_control_client:
  assumes "drain_control fds s w env = (q, s', w', env')"
  shows "clientSock s' = clientSock s \<and> inputBuffer s' = inputBuffer s
       \<and> inputCount s' = inputCount s"
  using assms
  by (auto simp: drain_control_def split: prod.splits outcome.splits if_splits
      dest: receiveClientFd_client)

lemma select_iteration_drained:
  assumes "0 \<le> clientSock s" and "0 \<le> selCount" and "fst (wakeFds s) \<notin> set ready"
    and "drain_control (filter (\<lambda>fd. fd \<in> set (select_fds s)) ready) s
           (after_select s selCount w) env0 = (Returns (), s2, w2, env2)"
  shows "select_iteration s w (SelectRes selCount e0 ready # env0) =
         read_client (filter (\<lambda>fd. fd \<in> set (select_fds s)) ready) s2 w2 env2"
proof -
  have nw: "fst (wakeFds s) \<notin> set (filter (\<lambda>fd. fd \<in> set (select_fds s)) ready)"
    using assms(3) by simp
  show ?thesis
    using assms(1,2) nw assms(4) [unfolded after_select_def]
    by (simp add: select_iteration_def select_maxfd_client Let_def del: set_filter)
qed

text \<open>
  C8, as it holds of the code.  In a round of the wait loop that reaches the read from the
  client channel (the client channel is ready, the wake channel is not, and the control
  channel, if ready, has been drained), when the single read fails with \<open>EINTR\<close>,
  \<open>processIncoming\<close> reports no connection loss and does not retry the wait loop: it
  returns true at once, leaving the state and the world as the round had them before the
  read (the drain of the control channel may have closed and unset it), and the next wait
  to the next call.  Every other read error, and a read of zero bytes, makes it report
  connection loss (\<open>Close\<close>, return false).
\<close>

theorem C8_client_read_errors:
  assumes "0 \<le> clientSock s" and "\<not> HaveFullPacket s" and "0 \<le> selCount"
    and "clientSock s \<in> set ready" and "fst (wakeFds s) \<notin> set ready"
    and "drain_control (filter (\<lambda>fd. fd \<in> set (select_fds s)) ready) s
           (after_select s selCount w) env0 = (Returns (), s2, w2, rd # env)"
  shows "(rd = ReadErr EINTR \<longrightarrow>
            processIncoming HaveFullPacket s w (SelectRes selCount e0 ready # env0)
            = (PReturns True, s2,
               LOG ''+++ EINTR hit''
                 (emit (EvRead (clientSock s) (unat (word_of_nat kInputBufferSize - inputCount s)) (- 1)) w2),
               env))
       \<and> (\<forall>e. rd = ReadErr e \<and> e \<noteq> EINTR \<longrightarrow>
            processIncoming HaveFullPacket s w (SelectRes selCount e0 ready # env0)
            = (PReturns False, s2\<lparr>clientSock := - 1\<rparr>,
               sys_close (clientSock s)
                 (emit (EvRead (clientSock s) (unat (word_of_nat kInputBufferSize - inputCount s)) (- 1)) w2),
               env))
       \<and> (rd = ReadData [] \<longrightarrow>
            processIncoming HaveFullPacket s w (SelectRes selCount e0 ready # env0)
            = (PReturns False, s2\<lparr>clientSock := - 1\<rparr>,
               sys_close (clientSock s)
                 (emit (EvRead (clientSock s) (unat (word_of_nat kInputBufferSize - inputCount s)) 0) w2),
               env))"
proof -
  let ?fds = "filter (\<lambda>fd. fd \<in> set (select_fds s)) ready"
  note same = drain_control_client [OF assms(6)]
  have it: "select_iteration s w (SelectRes selCount e0 ready # env0) =
      read_client ?fds s2 w2 (rd # env)"
    by (rule select_iteration_drained [OF assms(1,3,5,6)])
  have rdy: "clientSock s2 \<in> set ?fds" "0 \<le> clientSock s2"
    using assms(1,4) same by (simp_all add: client_in_select_fds)
  have a: "select_loop s w (SelectRes selCount e0 ready # env0) =
      (if e \<noteq> EINTR
       then (LoopFail, s2,
             emit (EvRead (clientSock s) (unat (word_of_nat kInputBufferSize - inputCount s)) (- 1)) w2, env)
       else (LoopReturn True, s2, LOG ''+++ EINTR hit''
              (emit (EvRead (clientSock s) (unat (word_of_nat kInputBufferSize - inputCount s)) (- 1)) w2), env))"
    if "rd = ReadErr e" for e
    using rdy same that
    by (subst select_loop.simps) (simp add: it read_client_def sys_read_def del: set_filter)
  have b: "select_loop s w (SelectRes selCount e0 ready # env0) =
      (LoopFail, s2, emit (EvRead (clientSock s) (unat (word_of_nat kInputBufferSize - inputCount s)) 0) w2, env)"
    if "rd = ReadData []"
    using rdy same that
    by (subst select_loop.simps) (simp add: it read_client_def sys_read_def del: set_filter)
  have cl: "Close s2 v = (s2\<lparr>clientSock := - 1\<rparr>, sys_close (clientSock s) v)" for v
    using rdy(2) same by (simp add: Close_def)
  show ?thesis
    using assms(1,2)
    by (auto simp: processIncoming_def a b processIncoming_fail_def cl)
qed

lemma attached_facts:
  "0 \<le> clientSock attached_state" "\<not> example_HaveFullPacket attached_state"
  "clientSock attached_state = 6" "controlSock attached_state = 3"
  "wakeFds attached_state = (4, 5)" "inputCount attached_state = 0"
  "select_fds attached_state = [3, 6, 4]"
  by (simp_all add: attached_state_def example_HaveFullPacket_def kMagicHandshakeLen_def
      kMagicHandshake_def select_fds_def)

theorem C8_client_read_errors_witness:
  "processIncoming example_HaveFullPacket attached_state attached_world
      [SelectRes 1 0 [6], ReadErr EINTR]
     = (PReturns True, attached_state,
        attached_world\<lparr>trace := [EvSelect [3, 6, 4] 1, EvRead 6 8192 (- 1)],
                         logs := [''+++ EINTR hit'']\<rparr>, [])
   \<and> processIncoming example_HaveFullPacket attached_state attached_world
      [SelectRes 1 0 [6], ReadErr 104]
     = (PReturns False, attached_state\<lparr>clientSock := - 1\<rparr>,
        attached_world\<lparr>open_fds := {0, 1, 2, 3, 4, 5},
                         trace := [EvSelect [3, 6, 4] 1, EvRead 6 8192 (- 1), EvClose 6]\<rparr>, [])
   \<and> processIncoming example_HaveFullPacket attached_state attached_world
      [SelectRes 1 0 [6], ReadData []]
     = (PReturns False, attached_state\<lparr>clientSock := - 1\<rparr>,
        attached_world\<lparr>open_fds := {0, 1, 2, 3, 4, 5},
                         trace := [EvSelect [3, 6, 4] 1, EvRead 6 8192 0, EvClose 6]\<rparr>, [])
   \<and> processIncoming example_HaveFullPacket attached_state attached_world
      [SelectRes 2 0 [3, 6], RecvmsgRes 0 0 None, ReadErr EINTR]
     = (PReturns True, attached_state\<lparr>controlSock := - 1\<rparr>,
        attached_world\<lparr>open_fds := {0, 1, 2, 4, 5, 6},
                         trace := [EvSelect [3, 6, 4] 2, EvRecvmsg 3 0 0, EvClose 3,
                                   EvRead 6 8192 (- 1)],
                         logs := [''+++ EINTR hit'']\<rparr>, [])"
proof -
  have h: "(0::int) \<le> 1" "clientSock attached_state \<in> set [6]"
    "fst (wakeFds attached_state) \<notin> set [6]"
    by (simp_all add: attached_facts)
  have d: "drain_control (filter (\<lambda>fd. fd \<in> set (select_fds attached_state)) [6])
      attached_state (after_select attached_state 1 attached_world) [rd]
      = (Returns (), attached_state, after_select attached_state 1 attached_world, rd # [])"
    for rd
    by (simp add: drain_control_def attached_facts)
  note th = C8_client_read_errors [where HaveFullPacket = example_HaveFullPacket
        and s = attached_state and w = attached_world and ?e0.0 = 0,
        OF attached_facts(1,2) h d]
  have h2: "(0::int) \<le> 2" "clientSock attached_state \<in> set [3, 6]"
    "fst (wakeFds attached_state) \<notin> set [3, 6]"
    by (simp_all add: attached_facts)
  have d2: "drain_control (filter (\<lambda>fd. fd \<in> set (select_fds attached_state)) [3, 6])
      attached_state (after_select attached_state 2 attached_world)
      [RecvmsgRes 0 0 None, ReadErr EINTR]
      = (Returns (), attached_state\<lparr>controlSock := - 1\<rparr>,
         sys_close 3 (emit (EvRecvmsg 3 0 0) (after_select attached_state 2 attached_world)),
         ReadErr EINTR # [])"
    by (simp add: drain_control_def receiveClientFd_def attached_facts)
  note th2 = C8_client_read_errors [where HaveFullPacket = example_HaveFullPacket
        and s = attached_state and w = attached_world and ?e0.0 = 0,
        OF attached_facts(1,2) h2 d2]
  have e: "(104::int) \<noteq> EINTR" by (simp add: EINTR_def)
  have s: "{0, 1, 2, 3, 4, 5, 6} - {6} = {0, 1, 2, 3, 4, 5 :: int}"
    "{0, 1, 2, 3, 4, 5, 6} - {3} = {0, 1, 2, 4, 5, 6 :: int}" by auto
  have w: "after_select attached_state n attached_world
      = attached_world\<lparr>trace := [EvSelect [3, 6, 4] n]\<rparr>" for n
    by (simp add: after_select_def attached_facts emit_def attached_world_def)
  have c: "unat (word_of_nat kInputBufferSize :: 64 word) = 8192"
    by (simp add: kInputBufferSize_def)
  show ?thesis
    using th [of "ReadErr EINTR"] th [of "ReadErr 104"] th [of "ReadData []"] th2 e
    by (simp add: attached_facts w c emit_def LOG_def sys_close_def)
      (simp add: attached_world_def s)
qed

text \<open>
  C8 as the spec states it fails: after the interrupted read the wait loop is not retried.  The call
  returns true and leaves the next \<open>select\<close> of the script unmade; had the loop been
  retried, that \<open>select\<close> and the end-of-stream read after it would have ended the
  call with connection loss.
\<close>

theorem C8_interrupted_read_returns_counterexample:
  "processIncoming example_HaveFullPacket attached_state attached_world
      [SelectRes 1 0 [6], ReadErr EINTR, SelectRes 1 0 [6], ReadData []]
     = (PReturns True, attached_state,
        attached_world\<lparr>trace := [EvSelect [3, 6, 4] 1, EvRead 6 8192 (- 1)],
                         logs := [''+++ EINTR hit'']\<rparr>,
        [SelectRes 1 0 [6], ReadData []])
   \<and> res_outcome (processIncoming example_HaveFullPacket attached_state
        (attached_world\<lparr>trace := [EvSelect [3, 6, 4] 1, EvRead 6 8192 (- 1)],
                         logs := [''+++ EINTR hit'']\<rparr>)
        [SelectRes 1 0 [6], ReadData []]) = PReturns False"
  by (simp add: processIncoming_def select_loop.simps select_iteration_def select_maxfd_def
      select_fds_def Let_def drain_control_def read_client_def sys_read_def
      attached_state_def attached_world_def example_HaveFullPacket_def kMagicHandshakeLen_def
      kMagicHandshake_def kInputBufferSize_def emit_def LOG_def res_outcome_def
      processIncoming_fail_def Close_def sys_close_def cong: prod.case_cong_weak)

text \<open>
  C5.  While a client channel is active, if the wait reports the control channel ready
  and \<open>receiveClientFd\<close> yields a second descriptor, that descriptor is closed at once
  and the whole state, so also \<open>clientSock\<close>, \<open>inputBuffer\<close>, \<open>inputCount\<close> and
  \<open>awaiting_handshake\<close>, is as before: the descriptor is stored nowhere and cannot
  reach the packet handler.  When the client channel is not ready in the same round, the
  wait loop continues: the call goes on exactly as a call from the same state on the
  rest of the script.
\<close>

theorem C5_second_debugger:
  assumes "0 \<le> clientSock s" and "\<not> HaveFullPacket s" and "0 \<le> selCount"
    and "0 \<le> controlSock s" and "controlSock s \<in> set ready"
    and "fst (wakeFds s) \<notin> set ready" and "0 < r" and "0 \<le> sock"
  shows "drain_control (filter (\<lambda>fd. fd \<in> set (select_fds s)) ready) s w'
            (RecvmsgRes r e (Some sock) # env)
         = (Returns (), s,
            sys_close sock
              (LOG ''Ignoring second debugger -- accepting and dropping''
                 (fd_install sock (emit (EvRecvmsg (controlSock s) r e) w'))),
            env)
       \<and> (clientSock s \<notin> set ready \<longrightarrow>
            processIncoming HaveFullPacket s w
              (SelectRes selCount e0 ready # RecvmsgRes r e (Some sock) # env)
            = processIncoming HaveFullPacket s
                (sys_close sock
                   (LOG ''Ignoring second debugger -- accepting and dropping''
                      (fd_install sock
                         (emit (EvRecvmsg (controlSock s) r e) (after_select s selCount w)))))
                env)"
proof -
  let ?fds = "filter (\<lambda>fd. fd \<in> set (select_fds s)) ready"
  let ?w2 = "\<lambda>v. sys_close sock
              (LOG ''Ignoring second debugger -- accepting and dropping''
                 (fd_install sock (emit (EvRecvmsg (controlSock s) r e) v)))"
  have rdy: "controlSock s \<in> set ?fds"
    using assms(4,5) by (simp add: control_in_select_fds)
  have drain: "drain_control ?fds s v (RecvmsgRes r e (Some sock) # env) = (Returns (), s, ?w2 v, env)"
    for v
    using assms(4,7,8) rdy
    by (simp add: drain_control_def receiveClientFd_def del: set_filter)
  have nw: "fst (wakeFds s) \<notin> set ?fds"
    using assms(6) by simp
  have loop: "select_loop s w (SelectRes selCount e0 ready # RecvmsgRes r e (Some sock) # env)
      = select_loop s (?w2 (after_select s selCount w)) env"
    if "clientSock s \<notin> set ready"
  proof -
    have nc: "clientSock s \<notin> set ?fds"
      using that by simp
    show ?thesis
      using assms(1,3) nw nc
      by (subst select_loop.simps)
      (simp add: select_iteration_def select_maxfd_client Let_def drain after_select_def
        read_client_def del: set_filter)
  qed
  show ?thesis
    using assms(1,2) by (simp add: drain processIncoming_def loop del: set_filter)
qed

theorem C5_second_debugger_witness:
  "processIncoming example_HaveFullPacket attached_state attached_world
      [SelectRes 1 0 [3], RecvmsgRes 1 0 (Some 7), SelectRes 1 0 [6], ReadErr EINTR]
   = processIncoming example_HaveFullPacket attached_state
       (attached_world\<lparr>trace := [EvSelect [3, 6, 4] 1, EvRecvmsg 3 1 0, EvClose 7],
          logs := [''Ignoring second debugger -- accepting and dropping'']\<rparr>)
       [SelectRes 1 0 [6], ReadErr EINTR]
   \<and> processIncoming example_HaveFullPacket attached_state attached_world
      [SelectRes 1 0 [3], RecvmsgRes 1 0 (Some 7), SelectRes 1 0 [6], ReadErr EINTR]
   = (PReturns True, attached_state,
      attached_world\<lparr>trace := [EvSelect [3, 6, 4] 1, EvRecvmsg 3 1 0, EvClose 7,
                                  EvSelect [3, 6, 4] 1, EvRead 6 8192 (- 1)],
          logs := [''Ignoring second debugger -- accepting and dropping'', ''+++ EINTR hit'']\<rparr>,
      [])"
proof -
  have h: "(0::int) \<le> 1" "0 \<le> controlSock attached_state"
    "controlSock attached_state \<in> set [3]" "fst (wakeFds attached_state) \<notin> set [3]"
    "(0::int) < 1" "(0::int) \<le> 7"
    by (simp_all add: attached_facts)
  have c: "clientSock attached_state \<notin> set [3]"
    by (simp add: attached_facts)
  have s: "insert 7 {0, 1, 2, 3, 4, 5, 6} - {7} = {0, 1, 2, 3, 4, 5, 6 :: int}" by auto
  have w: "sys_close 7
          (LOG ''Ignoring second debugger -- accepting and dropping''
            (fd_install 7 (emit (EvRecvmsg 3 1 0) (after_select attached_state 1 attached_world))))
        = attached_world\<lparr>trace := [EvSelect [3, 6, 4] 1, EvRecvmsg 3 1 0, EvClose 7],
          logs := [''Ignoring second debugger -- accepting and dropping'']\<rparr>"
    by (simp add: attached_facts after_select_def emit_def LOG_def sys_close_def fd_install_def)
      (simp add: attached_world_def s)
  have r: "processIncoming example_HaveFullPacket attached_state
       (attached_world\<lparr>trace := [EvSelect [3, 6, 4] 1, EvRecvmsg 3 1 0, EvClose 7],
          logs := [''Ignoring second debugger -- accepting and dropping'']\<rparr>)
       [SelectRes 1 0 [6], ReadErr EINTR]
     = (PReturns True, attached_state,
      attached_world\<lparr>trace := [EvSelect [3, 6, 4] 1, EvRecvmsg 3 1 0, EvClose 7,
                                  EvSelect [3, 6, 4] 1, EvRead 6 8192 (- 1)],
          logs := [''Ignoring second debugger -- accepting and dropping'', ''+++ EINTR hit'']\<rparr>,
      [])"
    by (simp add: processIncoming_def select_loop.simps select_iteration_def select_maxfd_def
      select_fds_def Let_def drain_control_def read_client_def sys_read_def
      attached_state_def attached_world_def example_HaveFullPacket_def kMagicHandshakeLen_def
      kMagicHandshake_def kInputBufferSize_def emit_def LOG_def cong: prod.case_cong_weak)
  show ?thesis
    using C5_second_debugger [where HaveFullPacket = example_HaveFullPacket
        and s = attached_state and w = attached_world and w' = attached_world
        and ?e0.0 = 0 and e = 0 and env = "[SelectRes 1 0 [6], ReadErr EINTR]",
        OF attached_facts(1,2) h] c
    by (simp add: attached_facts w r)
qed


section \<open>processIncoming: the handshake\<close>

lemma kMagicHandshakeLen_14: "kMagicHandshakeLen = 14"
  by (simp add: kMagicHandshakeLen_def kMagicHandshake_def)

lemma writes_simps [simp]:
  "writes [] = []"
  "writes (e # es) = (if is_write e then e # writes es else writes es)"
  "writes (xs @ ys) = writes xs @ writes ys"
  by (simp_all add: writes_def)

lemma write_retry_interrupted:
  "write_retry fd buf w (replicate n (WriteRes (- 1) EINTR) @ env) =
   write_retry fd buf (w\<lparr>trace := trace w @ replicate n (EvWrite fd buf (- 1))\<rparr>) env"
proof (induction n arbitrary: w)
  case 0
  then show ?case by simp
next
  case (Suc n)
  have "write_retry fd buf w (replicate (Suc n) (WriteRes (- 1) EINTR) @ env) =
        write_retry fd buf (emit (EvWrite fd buf (- 1)) w) (replicate n (WriteRes (- 1) EINTR) @ env)"
    by simp
  also have "\<dots> = write_retry fd buf
      ((emit (EvWrite fd buf (- 1)) w)
         \<lparr>trace := trace (emit (EvWrite fd buf (- 1)) w) @ replicate n (EvWrite fd buf (- 1))\<rparr>) env"
    by (rule Suc.IH)
  finally show ?case
    by (simp add: emit_def replicate_app_Cons_same)
qed

lemma recvmsg_loop_writes:
  "recvmsg_loop fd w env = (q, w', env') \<Longrightarrow> writes (trace w') = writes (trace w)"
  by (induction fd w env rule: recvmsg_loop.induct)
    (auto simp: emit_def fd_install_def split: if_splits option.splits)

lemma receiveClientFd_frame:
  assumes "receiveClientFd s w env = (q, s', w', env')"
  shows "writes (trace w') = writes (trace w) \<and> awaiting_handshake s' = awaiting_handshake s"
  using assms
  by (auto simp: receiveClientFd_def sys_close_def emit_def LOG_def
      split: prod.splits option.splits if_splits dest: recvmsg_loop_writes)

lemma drain_control_frame:
  assumes "drain_control fds s w env = (q, s', w', env')"
  shows "writes (trace w') = writes (trace w) \<and> awaiting_handshake s' = awaiting_handshake s"
  using assms
  by (auto simp: drain_control_def sys_close_def emit_def LOG_def
      split: prod.splits outcome.splits if_splits dest: receiveClientFd_frame)

lemma read_client_frame:
  assumes "read_client fds s w env = (q, s', w', env')"
  shows "writes (trace w') = writes (trace w) \<and> awaiting_handshake s' = awaiting_handshake s"
  using assms
  by (auto simp: read_client_def sys_read_def emit_def LOG_def Let_def
      split: prod.splits list.splits sysres.splits if_splits)

lemma select_iteration_frame:
  assumes "select_iteration s w env = (q, s', w', env')"
  shows "writes (trace w') = writes (trace w) \<and> awaiting_handshake s' = awaiting_handshake s"
proof -
  have w0: "writes (trace (if fst (wakeFds s) \<ge> 0 then w
        else LOG ''NOTE: entering select w/o wakepipe'' w)) = writes (trace w)"
    by (simp add: LOG_def)
  show ?thesis
    using assms w0
    by (auto simp: select_iteration_def Let_def emit_def LOG_def
        split: list.splits sysres.splits if_splits prod.splits outcome.splits
        dest!: drain_control_frame read_client_frame)
qed

lemma select_loop_frame:
  "select_loop s w env = (q, s', w', env') \<Longrightarrow>
   writes (trace w') = writes (trace w) \<and> awaiting_handshake s' = awaiting_handshake s"
proof (induction s w env rule: select_loop.induct)
  case (1 netState w env)
  obtain r s1 w1 env1 where it: "select_iteration netState w env = (r, s1, w1, env1)"
    by (cases "select_iteration netState w env") auto
  note fr = select_iteration_frame [OF it]
  show ?case
  proof (cases "r = LoopContinue")
    case True
    with "1.prems" it have "select_loop s1 w1 env1 = (q, s', w', env')"
      by (subst (asm) select_loop.simps) simp
    with "1.IH" [OF it [symmetric] refl refl True] fr show ?thesis
      by simp
  next
    case False
    with "1.prems" it have "(q, s', w', env') = (r, s1, w1, env1)"
      by (subst (asm) select_loop.simps) simp
    with fr show ?thesis by simp
  qed
qed


lemma echoes_simps [simp]:
  "echoes [] = 0"
  "echoes (e # es) = (if is_echo e then Suc (echoes es) else echoes es)"
  "echoes (xs @ ys) = echoes xs + echoes ys"
  by (simp_all add: echoes_def)

lemma echoes_writes: "echoes (writes tr) = echoes tr"
proof (induction tr)
  case Nil
  then show ?case by simp
next
  case (Cons e tr)
  then show ?case by (cases e) simp_all
qed

lemma writes_eq_echoes: "writes tr' = writes tr \<Longrightarrow> echoes tr' = echoes tr"
  by (metis echoes_writes)

lemma write_retry_echoes:
  "write_retry fd buf w env = (q, w', env') \<Longrightarrow>
   echoes (trace w') = echoes (trace w) + (case q of None \<Rightarrow> 0 | Some cc \<Rightarrow> if 0 < cc then 1 else 0)"
  by (induction fd buf w env arbitrary: q w' env' rule: write_retry.induct)
    (auto simp: emit_def split: if_splits)

lemma processIncoming_fail_closed:
  assumes "processIncoming_fail t v e = (r, t', v', e')"
  shows "clientSock t' < 0 \<and> awaiting_handshake t' = awaiting_handshake t
       \<and> writes (trace v') = writes (trace v)"
  using assms
  by (auto simp: processIncoming_fail_def Close_def sys_close_def emit_def split: if_splits)

lemma processIncoming_packet_account:
  assumes "processIncoming_packet t v e = (r, t', v', e')"
  shows "(\<not> awaiting_handshake t \<longrightarrow>
            writes (trace v') = writes (trace v) \<and> \<not> awaiting_handshake t')
       \<and> echoes (trace v') \<le> echoes (trace v) + 1
       \<and> (echoes (trace v') = echoes (trace v) + 1 \<longrightarrow>
            \<not> awaiting_handshake t' \<or> clientSock t' < 0)"
proof (cases "awaiting_handshake t")
  case False
  with assms show ?thesis
    by (auto simp: processIncoming_packet_def IsAwaitingHandshake_def)
next
  case True
  show ?thesis
  proof (cases "take kMagicHandshakeLen (inputBuffer t) \<noteq> kMagicHandshake")
    case bad: True
    with True assms
    have "processIncoming_fail t (LOG ''ERROR: bad handshake'' v) e = (r, t', v', e')"
      by (simp add: processIncoming_packet_def IsAwaitingHandshake_def)
    from processIncoming_fail_closed [OF this] True show ?thesis
      by (auto simp: LOG_def dest: writes_eq_echoes)
  next
    case False
    obtain q v1 e1 where wr: "write_retry (clientSock t)
        (take kMagicHandshakeLen (inputBuffer t)) v e = (q, v1, e1)"
      by (metis prod_cases3)
    note ec = write_retry_echoes [OF wr]
    show ?thesis
    proof (cases q)
      case None
      with True False wr assms ec show ?thesis
        by (auto simp: processIncoming_packet_def IsAwaitingHandshake_def)
    next
      case (Some cc)
      show ?thesis
      proof (cases "cc \<noteq> int kMagicHandshakeLen")
        case short: True
        with True False wr Some assms
        have "processIncoming_fail t (LOG ''Failed writing handshake bytes'' v1) e1
            = (r, t', v', e')"
          by (simp add: processIncoming_packet_def IsAwaitingHandshake_def)
        from processIncoming_fail_closed [OF this] True ec Some show ?thesis
          by (auto simp: LOG_def dest!: writes_eq_echoes)
      next
        case False
        with True \<open>\<not> take kMagicHandshakeLen (inputBuffer t) \<noteq> kMagicHandshake\<close> wr Some assms ec
        show ?thesis
          by (auto simp: processIncoming_packet_def IsAwaitingHandshake_def
              SetAwaitingHandshake_def ConsumeBytes_def kMagicHandshakeLen_14)
      qed
    qed
  qed
qed

lemma processIncoming_account:
  assumes "processIncoming HaveFullPacket s w env = (r, s', w', env')"
  shows "(\<not> awaiting_handshake s \<longrightarrow>
            writes (trace w') = writes (trace w) \<and> \<not> awaiting_handshake s')
       \<and> echoes (trace w') \<le> echoes (trace w) + 1
       \<and> (echoes (trace w') = echoes (trace w) + 1 \<longrightarrow>
            \<not> awaiting_handshake s' \<or> clientSock s' < 0)"
proof (cases "\<not> 0 \<le> clientSock s")
  case True
  with assms show ?thesis
    by (auto simp: processIncoming_def)
next
  case cs: False
  show ?thesis
  proof (cases "HaveFullPacket s")
    case True
    with cs assms have "processIncoming_packet s w env = (r, s', w', env')"
      by (simp add: processIncoming_def)
    from processIncoming_packet_account [OF this] show ?thesis .
  next
    case False
    obtain q s1 w1 env1 where sl: "select_loop s w env = (q, s1, w1, env1)"
      by (metis prod_cases4)
    from select_loop_frame [OF sl]
    have fr: "writes (trace w1) = writes (trace w)" "awaiting_handshake s1 = awaiting_handshake s"
      by simp_all
    note ee = writes_eq_echoes [OF fr(1)]
    show ?thesis
    proof (cases q)
      case (LoopBreak readCount)
      let ?s2 = "s1\<lparr>inputCount := inputCount s1 + word_of_int readCount\<rparr>"
      show ?thesis
      proof (cases "HaveFullPacket ?s2")
        case True
        with cs False sl LoopBreak assms
        have "processIncoming_packet ?s2 w1 env1 = (r, s', w', env')"
          by (simp add: processIncoming_def Let_def)
        from processIncoming_packet_account [OF this] fr ee show ?thesis
          by simp
      next
        case nf: False
        with cs False sl LoopBreak assms fr ee show ?thesis
          by (auto simp: processIncoming_def Let_def)
      qed
    next
      case LoopFail
      with cs False sl assms have "processIncoming_fail s1 w1 env1 = (r, s', w', env')"
        by (simp add: processIncoming_def)
      from processIncoming_fail_closed [OF this] fr ee show ?thesis
        by (auto dest!: writes_eq_echoes)
    qed (use cs False sl assms fr ee in \<open>auto simp: processIncoming_def\<close>)
  qed
qed

lemma serve_echoes:
  "echoes (trace (fst (snd (serve HaveFullPacket n s w env))))
     \<le> echoes (trace w) + (if awaiting_handshake s \<and> 0 \<le> clientSock s then 1 else 0)"
proof (induction n arbitrary: s w env)
  case 0
  then show ?case by simp
next
  case (Suc n)
  obtain r s' w' env' where pi: "processIncoming HaveFullPacket s w env = (r, s', w', env')"
    by (metis prod_cases4)
  note acc = processIncoming_account [OF pi]
  note ih = Suc.IH [of s' w' env']
  have sv: "serve HaveFullPacket (Suc n) s w env = serve HaveFullPacket n s' w' env'"
    using pi by simp
  show ?case
  proof (cases "0 \<le> clientSock s")
    case False
    with pi have "s' = s" "w' = w"
      by (auto simp: processIncoming_def)
    with ih False show ?thesis
      unfolding sv by simp
  next
    case cs: True
    show ?thesis
    proof (cases "awaiting_handshake s")
      case False
      with acc have "echoes (trace w') = echoes (trace w)" "\<not> awaiting_handshake s'"
        by (auto dest: writes_eq_echoes)
      with ih False show ?thesis
        unfolding sv by simp
    next
      case True
      show ?thesis
      proof (cases "echoes (trace w') = echoes (trace w) + 1")
        case True
        with acc have "\<not> (awaiting_handshake s' \<and> 0 \<le> clientSock s')"
          by auto
        with ih True \<open>awaiting_handshake s\<close> cs show ?thesis
          unfolding sv by simp
      next
        case False
        with acc have "echoes (trace w') \<le> echoes (trace w)"
          by simp
        with ih \<open>awaiting_handshake s\<close> cs show ?thesis
          unfolding sv by (simp split: if_splits)
      qed
    qed
  qed
qed


lemma processIncoming_via_read:
  assumes "0 \<le> clientSock s" and "\<not> HaveFullPacket s" and "0 \<le> selCount"
    and "clientSock s \<in> set ready" and "fst (wakeFds s) \<notin> set ready"
    and "drain_control (filter (\<lambda>fd. fd \<in> set (select_fds s)) ready) s
           (after_select s selCount w) env0 = (Returns (), s2, w2, ReadData d # rest)"
    and "d \<noteq> []" and "length d \<le> unat (word_of_nat kInputBufferSize - inputCount s)"
  shows "processIncoming HaveFullPacket s w (SelectRes selCount e0 ready # env0) =
         (if HaveFullPacket (after_read s2 d)
          then processIncoming_packet (after_read s2 d)
                 (emit (EvRead (clientSock s)
                          (unat (word_of_nat kInputBufferSize - inputCount s))
                          (int (length d))) w2) rest
          else (PReturns True, after_read s2 d,
                emit (EvRead (clientSock s)
                        (unat (word_of_nat kInputBufferSize - inputCount s))
                        (int (length d))) w2, rest))"
proof -
  let ?fds = "filter (\<lambda>fd. fd \<in> set (select_fds s)) ready"
  let ?v = "emit (EvRead (clientSock s) (unat (word_of_nat kInputBufferSize - inputCount s))
                    (int (length d))) w2"
  note same = drain_control_client [OF assms(6)]
  have it: "select_iteration s w (SelectRes selCount e0 ready # env0) =
      read_client ?fds s2 w2 (ReadData d # rest)"
    by (rule select_iteration_drained [OF assms(1,3,5,6)])
  have rdy: "clientSock s2 \<in> set ?fds" "0 \<le> clientSock s2"
    using assms(1,4) same by (simp_all add: client_in_select_fds)
  have len: "0 < length d" using assms(7) by simp
  have rd: "read_client ?fds s2 w2 (ReadData d # rest) =
      (LoopBreak (int (length d)),
       s2\<lparr>inputBuffer := take (unat (inputCount s2)) (inputBuffer s2) @ d
                           @ drop (unat (inputCount s2) + length d) (inputBuffer s2)\<rparr>,
       ?v, rest)"
    using rdy same assms(8) len
    by (simp add: read_client_def sys_read_def Let_def del: set_filter)
  have loop: "select_loop s w (SelectRes selCount e0 ready # env0) =
      (LoopBreak (int (length d)),
       s2\<lparr>inputBuffer := take (unat (inputCount s2)) (inputBuffer s2) @ d
                           @ drop (unat (inputCount s2) + length d) (inputBuffer s2)\<rparr>,
       ?v, rest)"
    by (subst select_loop.simps) (simp add: it rd)
  show ?thesis
    using assms(1,2)
    by (simp add: processIncoming_def loop Let_def after_read_def)
qed

text \<open>
  C1.  A call of \<open>processIncoming\<close> on a connection that awaits the handshake reaches the
  handshake either with a full packet already buffered or, as every first call after
  \<open>acceptConnection\<close> does, after the wait loop and one read have buffered the bytes
  (state \<open>t\<close>, world \<open>v\<close>).  With at least 14 bytes buffered, the first 14 buffered
  bytes are compared with \<open>JDWP-Handshake\<close>.  On a mismatch nothing is written and the
  connection is torn down (\<open>Close\<close>, return false).  On a match exactly these 14 bytes
  are written to the client channel (the write is repeated while it is interrupted by
  \<open>EINTR\<close>); a result other than 14 tears the connection down; a result of 14 consumes
  14 bytes from the front of the buffer and sets \<open>awaiting_handshake\<close> to false.  A call
  that starts with \<open>awaiting_handshake\<close> false makes no write and leaves it false; every
  call adds at most one write that puts bytes on the channel, and after such a write the
  flag is false or the channel is closed.  So any number of successive calls on a
  connection echoes at most once.
\<close>

theorem C1_handshake:
  assumes "0 \<le> clientSock s" and "IsAwaitingHandshake s"
    and "HaveFullPacket s \<and> t = s \<and> v = w \<and> script = rest
         \<or> \<not> HaveFullPacket s \<and> 0 \<le> selCount \<and> clientSock s \<in> set ready
           \<and> fst (wakeFds s) \<notin> set ready
           \<and> drain_control (filter (\<lambda>fd. fd \<in> set (select_fds s)) ready) s
                (after_select s selCount w) env0 = (Returns (), s2, w2, ReadData d # rest)
           \<and> d \<noteq> [] \<and> length d \<le> unat (word_of_nat kInputBufferSize - inputCount s)
           \<and> t = after_read s2 d
           \<and> v = emit (EvRead (clientSock s)
                          (unat (word_of_nat kInputBufferSize - inputCount s))
                          (int (length d))) w2
           \<and> script = SelectRes selCount e0 ready # env0
           \<and> HaveFullPacket t"
    and "14 \<le> unat (inputCount t)"
  shows "(take 14 (inputBuffer t) \<noteq> ''JDWP-Handshake'' \<longrightarrow>
            processIncoming HaveFullPacket s w script
            = (PReturns False, t\<lparr>clientSock := - 1\<rparr>,
               sys_close (clientSock s) (LOG ''ERROR: bad handshake'' v), rest))
       \<and> (take 14 (inputBuffer t) = ''JDWP-Handshake'' \<longrightarrow>
            rest = replicate n (WriteRes (- 1) EINTR) @ WriteRes cc e # env \<longrightarrow>
            \<not> (cc = - 1 \<and> e = EINTR) \<longrightarrow>
            processIncoming HaveFullPacket s w script
            = (if cc = 14
               then (PReturns True,
                     t\<lparr>inputBuffer := take (unat (inputCount t - 14)) (drop 14 (inputBuffer t))
                                        @ drop (unat (inputCount t - 14)) (inputBuffer t),
                       inputCount := inputCount t - 14,
                       awaiting_handshake := False\<rparr>,
                     v\<lparr>trace := trace v
                          @ replicate n (EvWrite (clientSock s) ''JDWP-Handshake'' (- 1))
                          @ [EvWrite (clientSock s) ''JDWP-Handshake'' 14]\<rparr>,
                     env)
               else (PReturns False, t\<lparr>clientSock := - 1\<rparr>,
                     sys_close (clientSock s)
                       (LOG ''Failed writing handshake bytes''
                          (v\<lparr>trace := trace v
                               @ replicate n (EvWrite (clientSock s) ''JDWP-Handshake'' (- 1))
                               @ [EvWrite (clientSock s) ''JDWP-Handshake'' cc]\<rparr>)),
                     env)))
       \<and> (\<forall>s' w' env'.
            (\<not> IsAwaitingHandshake s' \<longrightarrow>
               writes (trace (res_world (processIncoming HaveFullPacket s' w' env')))
                 = writes (trace w')
               \<and> \<not> IsAwaitingHandshake
                     (res_state (processIncoming HaveFullPacket s' w' env')))
            \<and> echoes (trace (res_world (processIncoming HaveFullPacket s' w' env')))
                 \<le> echoes (trace w') + 1
            \<and> (echoes (trace (res_world (processIncoming HaveFullPacket s' w' env')))
                 = echoes (trace w') + 1 \<longrightarrow>
               \<not> IsAwaitingHandshake (res_state (processIncoming HaveFullPacket s' w' env'))
               \<or> clientSock (res_state (processIncoming HaveFullPacket s' w' env')) < 0))
       \<and> (\<forall>k s' w' env'.
            echoes (trace (fst (snd (serve HaveFullPacket k s' w' env'))))
              \<le> echoes (trace w') + 1)"
proof -
  have path: "processIncoming HaveFullPacket s w script = processIncoming_packet t v rest"
    and cs: "clientSock t = clientSock s" and aw: "awaiting_handshake t"
  proof -
    from assms(3) show "processIncoming HaveFullPacket s w script = processIncoming_packet t v rest"
    proof (elim disjE conjE)
      assume "HaveFullPacket s" "t = s" "v = w" "script = rest"
      with assms(1) show ?thesis
        by (simp add: processIncoming_def)
    next
      assume a: "\<not> HaveFullPacket s" "0 \<le> selCount" "clientSock s \<in> set ready"
        "fst (wakeFds s) \<notin> set ready"
        "drain_control (filter (\<lambda>fd. fd \<in> set (select_fds s)) ready) s
           (after_select s selCount w) env0 = (Returns (), s2, w2, ReadData d # rest)"
        "d \<noteq> []" "length d \<le> unat (word_of_nat kInputBufferSize - inputCount s)"
        and b: "t = after_read s2 d"
        "v = emit (EvRead (clientSock s) (unat (word_of_nat kInputBufferSize - inputCount s))
                     (int (length d))) w2"
        "script = SelectRes selCount e0 ready # env0" "HaveFullPacket t"
      from processIncoming_via_read [where HaveFullPacket = HaveFullPacket and s = s
          and ?e0.0 = e0, OF assms(1) a] b show ?thesis
        by simp
    qed
    from assms(3) show "clientSock t = clientSock s"
      by (auto simp: after_read_def dest: drain_control_client)
    from assms(2,3) show "awaiting_handshake t"
      by (auto simp: after_read_def IsAwaitingHandshake_def dest: drain_control_frame)
  qed
  have cs0: "0 \<le> clientSock t" using cs assms(1) by simp
  have bad: "take 14 (inputBuffer t) \<noteq> ''JDWP-Handshake'' \<Longrightarrow>
      processIncoming_packet t v rest
      = (PReturns False, t\<lparr>clientSock := - 1\<rparr>,
         sys_close (clientSock s) (LOG ''ERROR: bad handshake'' v), rest)"
    using cs0 aw cs
    by (simp add: processIncoming_packet_def kMagicHandshakeLen_14 kMagicHandshake_def
        processIncoming_fail_def Close_def LOG_def IsAwaitingHandshake_def)
  have good: "processIncoming_packet t v (replicate n (WriteRes (- 1) EINTR) @ WriteRes cc e # env)
      = (if cc = 14
         then (PReturns True,
               t\<lparr>inputBuffer := take (unat (inputCount t - 14)) (drop 14 (inputBuffer t))
                                  @ drop (unat (inputCount t - 14)) (inputBuffer t),
                 inputCount := inputCount t - 14,
                 awaiting_handshake := False\<rparr>,
               v\<lparr>trace := trace v
                    @ replicate n (EvWrite (clientSock s) ''JDWP-Handshake'' (- 1))
                    @ [EvWrite (clientSock s) ''JDWP-Handshake'' 14]\<rparr>,
               env)
         else (PReturns False, t\<lparr>clientSock := - 1\<rparr>,
               sys_close (clientSock s)
                 (LOG ''Failed writing handshake bytes''
                    (v\<lparr>trace := trace v
                         @ replicate n (EvWrite (clientSock s) ''JDWP-Handshake'' (- 1))
                         @ [EvWrite (clientSock s) ''JDWP-Handshake'' cc]\<rparr>)),
               env))"
    if "take 14 (inputBuffer t) = ''JDWP-Handshake''" and "\<not> (cc = - 1 \<and> e = EINTR)"
  proof -
    have last: "write_retry fd buf u (WriteRes cc e # env) = (Some cc, emit (EvWrite fd buf cc) u, env)"
      for fd buf u
      using that(2) by auto
    show ?thesis
      using cs0 aw cs that(1)
      by (simp add: processIncoming_packet_def kMagicHandshakeLen_14 kMagicHandshake_def
          write_retry_interrupted last processIncoming_fail_def Close_def LOG_def emit_def
          SetAwaitingHandshake_def ConsumeBytes_def IsAwaitingHandshake_def
          del: write_retry.simps)
  qed
  have acc: "(\<not> IsAwaitingHandshake s' \<longrightarrow>
               writes (trace (res_world (processIncoming HaveFullPacket s' w' env')))
                 = writes (trace w')
               \<and> \<not> IsAwaitingHandshake
                     (res_state (processIncoming HaveFullPacket s' w' env')))
            \<and> echoes (trace (res_world (processIncoming HaveFullPacket s' w' env')))
                 \<le> echoes (trace w') + 1
            \<and> (echoes (trace (res_world (processIncoming HaveFullPacket s' w' env')))
                 = echoes (trace w') + 1 \<longrightarrow>
               \<not> IsAwaitingHandshake (res_state (processIncoming HaveFullPacket s' w' env'))
               \<or> clientSock (res_state (processIncoming HaveFullPacket s' w' env')) < 0)"
    for s' w' env'
  proof -
    obtain r1 s1 w1 env1 where pi: "processIncoming HaveFullPacket s' w' env' = (r1, s1, w1, env1)"
      by (metis prod_cases4)
    from processIncoming_account [OF pi] show ?thesis
      unfolding pi by (simp add: res_simps IsAwaitingHandshake_def)
  qed
  have many: "echoes (trace (fst (snd (serve HaveFullPacket k s' w' env'))))
              \<le> echoes (trace w') + 1" for k s' w' env'
    using serve_echoes [of HaveFullPacket k s' w' env'] by (simp split: if_splits)
  show ?thesis
    unfolding path using bad good acc many by blast
qed


lemma handshake_facts:
  "0 \<le> clientSock handshake_state" "IsAwaitingHandshake handshake_state"
  "example_HaveFullPacket handshake_state" "14 \<le> unat (inputCount handshake_state)"
  "take 14 (inputBuffer handshake_state) = ''JDWP-Handshake''"
  "clientSock handshake_state = 6"
  by (simp_all add: handshake_state_def attached_state_def IsAwaitingHandshake_def
      example_HaveFullPacket_def kMagicHandshakeLen_def kMagicHandshake_def)

theorem C1_handshake_witness:
  "processIncoming example_HaveFullPacket attached_state attached_world
      [SelectRes 1 0 [6], ReadData handshake_then_header, WriteRes (- 1) EINTR, WriteRes 14 0]
     = (PReturns True,
        attached_state\<lparr>inputBuffer :=
            [CHR 0x00, CHR 0x00, CHR 0x00, CHR 0x0B, CHR 0x00, CHR 0x00, CHR 0x00, CHR 0x01,
             CHR 0x80, CHR 0x00, CHR 0x00]
            @ ''ake''
            @ [CHR 0x00, CHR 0x00, CHR 0x00, CHR 0x0B, CHR 0x00, CHR 0x00, CHR 0x00, CHR 0x01,
               CHR 0x80, CHR 0x00, CHR 0x00]
            @ replicate 8167 CHR 0x00,
          inputCount := 11, awaiting_handshake := False\<rparr>,
        attached_world\<lparr>trace :=
           [EvSelect [3, 6, 4] 1, EvRead 6 8192 25,
            EvWrite 6 ''JDWP-Handshake'' (- 1), EvWrite 6 ''JDWP-Handshake'' 14]\<rparr>,
        [])
   \<and> processIncoming example_HaveFullPacket attached_state attached_world
      [SelectRes 1 0 [6], ReadData ''JDWP-Handshakf'', WriteRes 14 0]
     = (PReturns False,
        attached_state\<lparr>inputBuffer := ''JDWP-Handshakf'' @ replicate 8178 CHR 0x00,
          inputCount := 14, clientSock := - 1\<rparr>,
        attached_world\<lparr>open_fds := {0, 1, 2, 3, 4, 5},
           trace := [EvSelect [3, 6, 4] 1, EvRead 6 8192 14, EvClose 6],
           logs := [''ERROR: bad handshake'']\<rparr>,
        [WriteRes 14 0])
   \<and> res_outcome (processIncoming example_HaveFullPacket handshake_state attached_world
        [WriteRes 14 0]) = PReturns True
   \<and> trace (res_world (processIncoming example_HaveFullPacket handshake_state attached_world
        [WriteRes 14 0])) = [EvWrite 6 ''JDWP-Handshake'' 14]"
proof -
  have c: "unat (word_of_nat kInputBufferSize :: 64 word) = 8192"
    by (simp add: kInputBufferSize_def)
  have w: "after_select attached_state 1 attached_world
      = attached_world\<lparr>trace := [EvSelect [3, 6, 4] 1]\<rparr>"
    by (simp add: after_select_def attached_facts emit_def attached_world_def)
  have d: "drain_control (filter (\<lambda>fd. fd \<in> set (select_fds attached_state)) [6])
      attached_state (after_select attached_state 1 attached_world) (ReadData x # rest)
      = (Returns (), attached_state, after_select attached_state 1 attached_world,
         ReadData x # rest)"
    for x rest
    by (simp add: drain_control_def attached_facts)
  have aw: "IsAwaitingHandshake attached_state"
    by (simp add: IsAwaitingHandshake_def attached_state_def)
  let ?t1 = "after_read attached_state handshake_then_header"
  let ?t2 = "after_read attached_state ''JDWP-Handshakf''"
  let ?v = "\<lambda>n. emit (EvRead (clientSock attached_state)
                (unat (word_of_nat kInputBufferSize - inputCount attached_state)) n)
              (after_select attached_state 1 attached_world)"
  have t1: "?t1 = attached_state\<lparr>inputBuffer := handshake_then_header @ replicate 8167 CHR 0x00,
                                  inputCount := 25\<rparr>"
    by (simp add: after_read_def attached_state_def handshake_then_header_def)
  have t2: "?t2 = attached_state\<lparr>inputBuffer := ''JDWP-Handshakf'' @ replicate 8178 CHR 0x00,
                                  inputCount := 14\<rparr>"
    by (simp add: after_read_def attached_state_def)
  have r1: "\<not> example_HaveFullPacket attached_state \<and> (0::int) \<le> 1
      \<and> clientSock attached_state \<in> set [6] \<and> fst (wakeFds attached_state) \<notin> set [6]
      \<and> drain_control (filter (\<lambda>fd. fd \<in> set (select_fds attached_state)) [6])
            attached_state (after_select attached_state 1 attached_world)
            [ReadData handshake_then_header, WriteRes (- 1) EINTR, WriteRes 14 0]
          = (Returns (), attached_state, after_select attached_state 1 attached_world,
             ReadData handshake_then_header # [WriteRes (- 1) EINTR, WriteRes 14 0])
      \<and> handshake_then_header \<noteq> []
      \<and> length handshake_then_header
          \<le> unat (word_of_nat kInputBufferSize - inputCount attached_state)
      \<and> ?t1 = after_read attached_state handshake_then_header
      \<and> ?v 25 = emit (EvRead (clientSock attached_state)
                (unat (word_of_nat kInputBufferSize - inputCount attached_state))
                (int (length handshake_then_header)))
              (after_select attached_state 1 attached_world)
      \<and> [SelectRes 1 0 [6], ReadData handshake_then_header, WriteRes (- 1) EINTR, WriteRes 14 0]
          = SelectRes 1 0 [6] # [ReadData handshake_then_header, WriteRes (- 1) EINTR, WriteRes 14 0]
      \<and> example_HaveFullPacket ?t1"
    using d [of handshake_then_header "[WriteRes (- 1) EINTR, WriteRes 14 0]"]
    by (simp add: attached_facts c t1)
      (simp add: handshake_then_header_def example_HaveFullPacket_def attached_state_def
        kMagicHandshakeLen_def kMagicHandshake_def)
  have r2: "\<not> example_HaveFullPacket attached_state \<and> (0::int) \<le> 1
      \<and> clientSock attached_state \<in> set [6] \<and> fst (wakeFds attached_state) \<notin> set [6]
      \<and> drain_control (filter (\<lambda>fd. fd \<in> set (select_fds attached_state)) [6])
            attached_state (after_select attached_state 1 attached_world)
            [ReadData ''JDWP-Handshakf'', WriteRes 14 0]
          = (Returns (), attached_state, after_select attached_state 1 attached_world,
             ReadData ''JDWP-Handshakf'' # [WriteRes 14 0])
      \<and> ''JDWP-Handshakf'' \<noteq> []
      \<and> length ''JDWP-Handshakf''
          \<le> unat (word_of_nat kInputBufferSize - inputCount attached_state)
      \<and> ?t2 = after_read attached_state ''JDWP-Handshakf''
      \<and> ?v 14 = emit (EvRead (clientSock attached_state)
                (unat (word_of_nat kInputBufferSize - inputCount attached_state))
                (int (length ''JDWP-Handshakf'')))
              (after_select attached_state 1 attached_world)
      \<and> [SelectRes 1 0 [6], ReadData ''JDWP-Handshakf'', WriteRes 14 0]
          = SelectRes 1 0 [6] # [ReadData ''JDWP-Handshakf'', WriteRes 14 0]
      \<and> example_HaveFullPacket ?t2"
    using d [of "''JDWP-Handshakf''" "[WriteRes 14 0]"]
    by (simp add: attached_facts c t2)
      (simp add: example_HaveFullPacket_def attached_state_def
        kMagicHandshakeLen_def kMagicHandshake_def)
  have n1: "14 \<le> unat (inputCount ?t1)" and n2: "14 \<le> unat (inputCount ?t2)"
    by (simp_all add: t1 t2)
  have m1: "take 14 (inputBuffer ?t1) = ''JDWP-Handshake''"
    unfolding t1 by (simp add: handshake_then_header_def)
  have m2: "take 14 (inputBuffer ?t2) \<noteq> ''JDWP-Handshake''"
    unfolding t2 by simp
  have ne: "\<not> ((14::int) = - 1 \<and> (0::int) = EINTR)" by simp
  have one: "[WriteRes (- 1) EINTR, WriteRes 14 0]
      = replicate (Suc 0) (WriteRes (- 1) EINTR) @ WriteRes 14 0 # []" by simp
  have zero: "[WriteRes 14 0] = replicate 0 (WriteRes (- 1) EINTR) @ WriteRes 14 0 # []" by simp
  note th1 = C1_handshake [where HaveFullPacket = example_HaveFullPacket
      and s = attached_state and w = attached_world and t = ?t1 and v = "?v 25"
      and script = "[SelectRes 1 0 [6], ReadData handshake_then_header,
                     WriteRes (- 1) EINTR, WriteRes 14 0]"
      and rest = "[WriteRes (- 1) EINTR, WriteRes 14 0]"
      and n = "Suc 0" and cc = 14 and e = 0 and env = "[]",
      OF attached_facts(1) aw disjI2 [OF r1] n1]
  note th2 = C1_handshake [where HaveFullPacket = example_HaveFullPacket
      and s = attached_state and w = attached_world and t = ?t2 and v = "?v 14"
      and script = "[SelectRes 1 0 [6], ReadData ''JDWP-Handshakf'', WriteRes 14 0]"
      and rest = "[WriteRes 14 0]",
      OF attached_facts(1) aw disjI2 [OF r2] n2]
  have e3: "example_HaveFullPacket handshake_state \<and> handshake_state = handshake_state
      \<and> attached_world = attached_world \<and> [WriteRes 14 0] = [WriteRes 14 0]"
    by (simp add: handshake_facts)
  note th3 = C1_handshake [where HaveFullPacket = example_HaveFullPacket
      and s = handshake_state and w = attached_world and t = handshake_state
      and v = attached_world and script = "[WriteRes 14 0]" and rest = "[WriteRes 14 0]"
      and n = 0 and cc = 14 and e = 0 and env = "[]",
      OF handshake_facts(1,2) disjI1 [OF e3] handshake_facts(4)]
  have s: "{0, 1, 2, 3, 4, 5, 6} - {6} = {0, 1, 2, 3, 4, 5 :: int}" by auto
  have run1: "processIncoming example_HaveFullPacket attached_state attached_world
      [SelectRes 1 0 [6], ReadData handshake_then_header, WriteRes (- 1) EINTR, WriteRes 14 0]
     = (PReturns True,
        ?t1\<lparr>inputBuffer := take (unat (inputCount ?t1 - 14)) (drop 14 (inputBuffer ?t1))
                              @ drop (unat (inputCount ?t1 - 14)) (inputBuffer ?t1),
            inputCount := inputCount ?t1 - 14, awaiting_handshake := False\<rparr>,
        (?v 25)\<lparr>trace := trace (?v 25)
            @ replicate (Suc 0) (EvWrite (clientSock attached_state) ''JDWP-Handshake'' (- 1))
            @ [EvWrite (clientSock attached_state) ''JDWP-Handshake'' 14]\<rparr>, [])"
    using th1 [THEN conjunct2, THEN conjunct1, rule_format, OF m1 one ne] by simp
  have run2: "processIncoming example_HaveFullPacket attached_state attached_world
      [SelectRes 1 0 [6], ReadData ''JDWP-Handshakf'', WriteRes 14 0]
     = (PReturns False, ?t2\<lparr>clientSock := - 1\<rparr>,
        sys_close (clientSock attached_state) (LOG ''ERROR: bad handshake'' (?v 14)),
        [WriteRes 14 0])"
    using th2 [THEN conjunct1, rule_format, OF m2] by simp
  have run3: "processIncoming example_HaveFullPacket handshake_state attached_world
      [WriteRes 14 0]
     = (PReturns True,
        handshake_state\<lparr>inputBuffer := take (unat (inputCount handshake_state - 14))
                              (drop 14 (inputBuffer handshake_state))
                            @ drop (unat (inputCount handshake_state - 14))
                                (inputBuffer handshake_state),
           inputCount := inputCount handshake_state - 14, awaiting_handshake := False\<rparr>,
        attached_world\<lparr>trace := trace attached_world
            @ replicate 0 (EvWrite (clientSock handshake_state) ''JDWP-Handshake'' (- 1))
            @ [EvWrite (clientSock handshake_state) ''JDWP-Handshake'' 14]\<rparr>, [])"
    using th3 [THEN conjunct2, THEN conjunct1, rule_format, OF handshake_facts(5) zero ne]
    by simp
  show ?thesis
    unfolding run1 run2 run3 t1 t2
    by (simp add: res_simps w c attached_facts handshake_facts(6) emit_def LOG_def
        sys_close_def handshake_then_header_def)
      (simp add: attached_state_def attached_world_def s)
qed

section \<open>acceptConnection: the bounded retry\<close>

lemma recv_calls_simps [simp]:
  "recv_calls [] = 0"
  "recv_calls (ev # tr) = (if completed_recv ev then Suc (recv_calls tr) else recv_calls tr)"
  "recv_calls (xs @ ys) = recv_calls xs + recv_calls ys"
  by (simp_all add: recv_calls_def)

lemma world_observers [simp]:
  "trace (LOG m w) = trace w" "exceeded_logged (emit ev w) = exceeded_logged w"
  "trace (fd_install fd w) = trace w" "exceeded_logged (fd_install fd w) = exceeded_logged w"
  "trace (emit ev w) = trace w @ [ev]"
  "trace (sys_close fd w) = trace w @ [EvClose fd]"
  "exceeded_logged (sys_close fd w) = exceeded_logged w"
  "trace (sys_shutdown fd w) = trace w @ [EvShutdown fd]"
  "exceeded_logged (sys_shutdown fd w) = exceeded_logged w"
  by (simp_all add: LOG_def emit_def fd_install_def sys_close_def sys_shutdown_def
      exceeded_logged_def)

lemma exceeded_logged_LOG:
  "exceeded_logged (LOG m w) =
     (if m = ''adb connection max retries exceeded'' then Suc (exceeded_logged w)
      else exceeded_logged w)"
  by (simp add: LOG_def exceeded_logged_def)

lemma send_retry_frame:
  "send_retry fd buf w env = (q, w', env') \<Longrightarrow>
   recv_calls (trace w') = recv_calls (trace w) \<and> exceeded_logged w' = exceeded_logged w"
  by (induction fd buf w env rule: send_retry.induct) (auto split: if_splits)

lemma connect_loop_frame:
  "connect_loop android buff ms s w env = (q, s', w', env') \<Longrightarrow>
   recv_calls (trace w') = recv_calls (trace w) \<and> exceeded_logged w' = exceeded_logged w"
proof (induction android buff ms s w env arbitrary: q s' w' env' rule: connect_loop.induct)
  case (1 android buff sleep_ms netState w ret env)
  show ?case
  proof (cases "ret = 0")
    case True
    with "1.prems" show ?thesis
      by (auto simp: Let_def exceeded_logged_LOG
          split: prod.splits option.splits bool.splits if_splits dest!: send_retry_frame)
  next
    case False
    show ?thesis
    proof (cases "shuttingDown netState")
      case True
      with "1.prems" \<open>ret \<noteq> 0\<close> show ?thesis
        by (auto simp: Let_def)
    next
      case sd: False
      with "1.prems" \<open>ret \<noteq> 0\<close>
      have "connect_loop android buff
              (if sleep_ms + sleep_ms div 2 > 2 * 1000 then 2 * 1000 else sleep_ms + sleep_ms div 2)
              netState
              (emit (EvUsleep (sleep_ms * 1000)) (emit (EvConnect (controlSock netState) ret) w))
              env = (q, s', w', env')"
        by (simp add: Let_def)
      from "1.IH" [OF refl False refl refl refl sd this] show ?thesis
        by simp
    qed
  qed
qed simp_all


lemma connect_control_frame:
  assumes "connect_control android pid s w env = (q, s', w', env')"
  shows "recv_calls (trace w') = recv_calls (trace w) \<and> exceeded_logged w' = exceeded_logged w"
  using assms
  by (auto simp: connect_control_def Let_def exceeded_logged_LOG
      split: list.splits sysres.splits if_splits dest!: connect_loop_frame)

lemma recvmsg_loop_calls:
  "recvmsg_loop fd w env = (q, w', env') \<Longrightarrow>
   exceeded_logged w' = exceeded_logged w
   \<and> recv_calls (trace w') = recv_calls (trace w) + (if q = None then 0 else 1)"
  by (induction fd w env arbitrary: q w' env' rule: recvmsg_loop.induct)
    (auto split: if_splits option.splits)

lemma receiveClientFd_calls:
  assumes "receiveClientFd s w env = (q, s', w', env')"
  shows "exceeded_logged w' = exceeded_logged w
       \<and> recv_calls (trace w') = recv_calls (trace w) + (if q = Stuck then 0 else 1)
       \<and> q \<noteq> Aborts"
  using assms
  by (auto simp: receiveClientFd_def exceeded_logged_LOG
      split: prod.splits option.splits if_splits dest!: recvmsg_loop_calls)

lemma accept_retry_bounded:
  assumes "nat (6 - retryCount) = k" and "retryCount \<le> 5"
  shows "recv_calls (trace (res_world (accept_retry android pid retryCount s w env)))
           \<le> recv_calls (trace w) + k
       \<and> exceeded_logged (res_world (accept_retry android pid retryCount s w env))
           \<le> exceeded_logged w + 1
       \<and> (exceeded_logged (res_world (accept_retry android pid retryCount s w env))
            = exceeded_logged w + 1 \<longrightarrow>
          res_outcome (accept_retry android pid retryCount s w env) = Returns False
          \<and> recv_calls (trace (res_world (accept_retry android pid retryCount s w env)))
              = recv_calls (trace w) + k)"
  using assms
proof (induction k arbitrary: retryCount s w env)
  case 0
  then show ?case by (simp add: res_simps res_simps)
next
  case (Suc k)
  let ?R = "accept_retry android pid retryCount s w env"
  show ?case
  proof (cases "shuttingDown s")
    case True
    then have "?R = (Returns False, s, w, env)"
      by (subst accept_retry.simps) (simp add: res_simps)
    then show ?thesis by (simp add: res_simps res_simps)
  next
    case sd: False
    obtain c s1 w1 env1 where cc:
      "(if controlSock s < 0 then connect_control android pid s w env else (None, s, w, env))
       = (c, s1, w1, env1)"
      by (metis prod_cases4)
    then have f1: "recv_calls (trace w1) = recv_calls (trace w)"
        "exceeded_logged w1 = exceeded_logged w"
      by (auto simp: res_simps split: if_splits dest: connect_control_frame)
    show ?thesis
    proof (cases c)
      case (Some r0)
      with sd cc have "?R = (r0, s1, w1, env1)"
        by (subst accept_retry.simps) (simp add: res_simps)
      with f1 show ?thesis by (simp add: res_simps res_simps)
    next
      case None
      obtain q s2 w2 env2 where rc: "receiveClientFd s1 w1 env1 = (q, s2, w2, env2)"
        by (metis prod_cases4)
      note f2 = receiveClientFd_calls [OF rc]
      show ?thesis
      proof (cases q)
        case (Returns fd)
        let ?s3 = "s2\<lparr>clientSock := fd\<rparr>"
        have unfold: "?R =
            (if shuttingDown ?s3 then (Returns False, ?s3, w2, env2)
             else if clientSock ?s3 < 0 then
               (if retryCount + 1 > 5
                then (Returns False, ?s3, LOG ''adb connection max retries exceeded'' w2, env2)
                else accept_retry android pid (retryCount + 1) ?s3 w2 env2)
             else (Returns True, ?s3\<lparr>awaiting_handshake := True, inputCount := 0\<rparr>, w2, env2))"
          using sd cc None rc Returns
          by (subst accept_retry.simps) (simp add: Let_def)
        show ?thesis
        proof (cases "\<not> shuttingDown ?s3 \<and> clientSock ?s3 < 0 \<and> \<not> retryCount + 1 > 5")
          case True
          then have rec: "?R = accept_retry android pid (retryCount + 1) ?s3 w2 env2"
            using unfold by (simp add: res_simps res_simps)
          from True Suc.prems have "nat (6 - (retryCount + 1)) = k" "retryCount + 1 \<le> 5"
            by simp_all
          from Suc.IH [OF this, of ?s3 w2 env2] f1 f2 Returns show ?thesis
            unfolding rec by (simp add: res_simps res_simps)
        next
          case False
          with Suc.prems have "retryCount + 1 > 5 \<Longrightarrow> k = 0"
            by (simp add: res_simps)
          with False unfold f1 f2 Returns show ?thesis
            by (auto simp: res_simps exceeded_logged_LOG)
        qed
      next
        case Aborts
        with f2 show ?thesis by (simp add: res_simps res_simps)
      next
        case Stuck
        with sd cc None rc have "?R = (Stuck, s2, w2, env2)"
          by (subst accept_retry.simps) (simp add: res_simps)
        with f1 f2 Stuck show ?thesis by (simp add: res_simps res_simps)
      qed
    qed
  qed
qed


lemma receiveClientFd_failure:
  assumes "ret \<le> 0" and "\<not> (ret < 0 \<and> e = EINTR)"
  shows "receiveClientFd s w (RecvmsgRes ret e anc # env)
         = (Returns (- 1), s\<lparr>controlSock := - 1\<rparr>, after_failed_receive s ret e w, env)"
  using assms
  by (cases anc) (auto simp: receiveClientFd_def after_failed_receive_def)


lemma accept_retry_step:
  assumes "\<not> shuttingDown s"
    and "(if controlSock s < 0 then connect_control android pid s w env else (None, s, w, env))
         = (None, s1, w1, env1)"
    and "receiveClientFd s1 w1 env1 = (Returns fd, s2, w2, env2)"
    and "fd < 0" and "\<not> shuttingDown s2"
  shows "accept_retry android pid retryCount s w env
         = (if retryCount + 1 > 5
            then (Returns False, s2\<lparr>clientSock := fd\<rparr>,
                  LOG ''adb connection max retries exceeded'' w2, env2)
            else accept_retry android pid (retryCount + 1) (s2\<lparr>clientSock := fd\<rparr>) w2 env2)"
  using assms
  by (subst accept_retry.simps) (simp add: Let_def)

lemma connect_control_connected:
  assumes "controlSock s < 0" and "0 \<le> fd" and "0 \<le> r" and "0 \<le> n"
  shows "connect_control android pid s w
           (SocketRes fd # PipeRes r a b # ConnectRes 0
              # (if android then [PeerTrusted True] else []) @ SendRes n e # env)
         = (None, s\<lparr>controlSock := fd, wakeFds := (a, b)\<rparr>, connected_world pid fd r a b n w, env)"
  using assms
  by (cases android) (simp_all add: connect_control_def Let_def connected_world_def)

lemma accept_retry_reconnect_round:
  assumes "\<not> shuttingDown s" and "controlSock s < 0" and "0 \<le> fd" and "0 \<le> r"
    and "0 \<le> n" and "ret \<le> 0" and "\<not> (ret < 0 \<and> e' = EINTR)"
  shows "accept_retry android pid retryCount s w
           (SocketRes fd # PipeRes r a b # ConnectRes 0
              # (if android then [PeerTrusted True] else [])
              @ SendRes n e # RecvmsgRes ret e' anc # env)
         = (if retryCount + 1 > 5
            then (Returns False, s\<lparr>wakeFds := (a, b), controlSock := - 1, clientSock := - 1\<rparr>,
                  LOG ''adb connection max retries exceeded''
                    (after_failed_receive (s\<lparr>controlSock := fd\<rparr>) ret e'
                       (connected_world pid fd r a b n w)),
                  env)
            else accept_retry android pid (retryCount + 1)
                   (s\<lparr>wakeFds := (a, b), controlSock := - 1, clientSock := - 1\<rparr>)
                   (after_failed_receive (s\<lparr>controlSock := fd\<rparr>) ret e'
                      (connected_world pid fd r a b n w))
                   env)"
proof -
  let ?s1 = "s\<lparr>controlSock := fd, wakeFds := (a, b)\<rparr>"
  let ?w1 = "connected_world pid fd r a b n w"
  have c: "(if controlSock s < 0
            then connect_control android pid s w
                   (SocketRes fd # PipeRes r a b # ConnectRes 0
                      # (if android then [PeerTrusted True] else [])
                      @ SendRes n e # RecvmsgRes ret e' anc # env)
            else (None, s, w, SocketRes fd # PipeRes r a b # ConnectRes 0
                      # (if android then [PeerTrusted True] else [])
                      @ SendRes n e # RecvmsgRes ret e' anc # env))
        = (None, ?s1, ?w1, RecvmsgRes ret e' anc # env)"
    using assms(2) connect_control_connected [OF assms(2-5)] by simp
  have rc: "receiveClientFd ?s1 ?w1 (RecvmsgRes ret e' anc # env)
        = (Returns (- 1), ?s1\<lparr>controlSock := - 1\<rparr>, after_failed_receive ?s1 ret e' ?w1, env)"
    by (rule receiveClientFd_failure [OF assms(6,7)])
  have sd: "\<not> shuttingDown (?s1\<lparr>controlSock := - 1\<rparr>)"
    using assms(1) by simp
  have af: "after_failed_receive ?s1 ret e' ?w1
      = after_failed_receive (s\<lparr>controlSock := fd\<rparr>) ret e' ?w1"
    by (simp add: after_failed_receive_def)
  from accept_retry_step [OF assms(1) c rc _ sd, of retryCount] show ?thesis
    by (simp add: af)
qed

text \<open>
  C4.  A call of \<open>acceptConnection\<close> makes at most six descriptor-receive attempts,
  whatever the script: it never loops indefinitely on receive failures.  When the
  message of the exhausted retries is logged, the call has failed (returned false) after
  exactly six attempts.  In every round, with or without \<open>HAVE_ANDROID_OS\<close>, whether the
  control channel was still open or had to be opened, connected and announced first, a
  failed receive (a negative descriptor) re-enters the code at the label \<open>retry\<close> (the
  shutting-down check) with the retry counter incremented as long as the incremented
  counter does not exceed 5; when it does, the call logs the message and returns false.
\<close>

theorem C4_bounded_retries:
  "recv_calls (trace (res_world (acceptConnection android pid s w env)))
     \<le> recv_calls (trace w) + 6
   \<and> (exceeded_logged (res_world (acceptConnection android pid s w env))
        = exceeded_logged w + 1 \<longrightarrow>
      res_outcome (acceptConnection android pid s w env) = Returns False
      \<and> recv_calls (trace (res_world (acceptConnection android pid s w env)))
          = recv_calls (trace w) + 6)
   \<and> (\<not> shuttingDown s \<longrightarrow>
      (if controlSock s < 0 then connect_control android pid s w env else (None, s, w, env))
        = (None, s1, w1, env1) \<longrightarrow>
      receiveClientFd s1 w1 env1 = (Returns fd', s2, w2, env2) \<longrightarrow>
      fd' < 0 \<longrightarrow> \<not> shuttingDown s2 \<longrightarrow>
      (\<forall>retryCount.
         accept_retry android pid retryCount s w env
         = (if retryCount + 1 > 5
            then (Returns False, s2\<lparr>clientSock := fd'\<rparr>,
                  LOG ''adb connection max retries exceeded'' w2, env2)
            else accept_retry android pid (retryCount + 1) (s2\<lparr>clientSock := fd'\<rparr>) w2 env2)))
   \<and> (\<not> shuttingDown s \<longrightarrow> controlSock s < 0 \<longrightarrow> 0 \<le> fd \<longrightarrow> 0 \<le> r \<longrightarrow> 0 \<le> n \<longrightarrow>
      ret \<le> 0 \<longrightarrow> \<not> (ret < 0 \<and> e' = EINTR) \<longrightarrow>
      (\<forall>retryCount.
         accept_retry android pid retryCount s w
           (SocketRes fd # PipeRes r a b # ConnectRes 0
              # (if android then [PeerTrusted True] else [])
              @ SendRes n e # RecvmsgRes ret e' anc # rest)
         = (if retryCount + 1 > 5
            then (Returns False, s\<lparr>wakeFds := (a, b), controlSock := - 1, clientSock := - 1\<rparr>,
                  LOG ''adb connection max retries exceeded''
                    (after_failed_receive (s\<lparr>controlSock := fd\<rparr>) ret e'
                       (connected_world pid fd r a b n w)),
                  rest)
            else accept_retry android pid (retryCount + 1)
                   (s\<lparr>wakeFds := (a, b), controlSock := - 1, clientSock := - 1\<rparr>)
                   (after_failed_receive (s\<lparr>controlSock := fd\<rparr>) ret e'
                      (connected_world pid fd r a b n w))
                   rest)))
   \<and> (\<not> shuttingDown s \<longrightarrow> 0 \<le> controlSock s \<longrightarrow> ret \<le> 0 \<longrightarrow> \<not> (ret < 0 \<and> e' = EINTR) \<longrightarrow>
      (\<forall>retryCount.
         accept_retry android pid retryCount s w (RecvmsgRes ret e' anc # rest)
         = (if retryCount + 1 > 5
            then (Returns False, s\<lparr>controlSock := - 1, clientSock := - 1\<rparr>,
                  LOG ''adb connection max retries exceeded'' (after_failed_receive s ret e' w),
                  rest)
            else accept_retry android pid (retryCount + 1)
                   (s\<lparr>controlSock := - 1, clientSock := - 1\<rparr>)
                   (after_failed_receive s ret e' w) rest)))"
proof -
  have bound: "recv_calls (trace (res_world (accept_retry android pid 0 s w env)))
           \<le> recv_calls (trace w) + 6
       \<and> exceeded_logged (res_world (accept_retry android pid 0 s w env))
           \<le> exceeded_logged w + 1
       \<and> (exceeded_logged (res_world (accept_retry android pid 0 s w env))
            = exceeded_logged w + 1 \<longrightarrow>
          res_outcome (accept_retry android pid 0 s w env) = Returns False
          \<and> recv_calls (trace (res_world (accept_retry android pid 0 s w env)))
              = recv_calls (trace w) + 6)"
    by (rule accept_retry_bounded) simp_all
  have connected: "accept_retry android pid retryCount s w (RecvmsgRes ret e' anc # rest)
         = (if retryCount + 1 > 5
            then (Returns False, s\<lparr>controlSock := - 1, clientSock := - 1\<rparr>,
                  LOG ''adb connection max retries exceeded'' (after_failed_receive s ret e' w),
                  rest)
            else accept_retry android pid (retryCount + 1)
                   (s\<lparr>controlSock := - 1, clientSock := - 1\<rparr>)
                   (after_failed_receive s ret e' w) rest)"
    if "\<not> shuttingDown s" "0 \<le> controlSock s" "ret \<le> 0" "\<not> (ret < 0 \<and> e' = EINTR)"
    for retryCount
    using that
    by (subst accept_retry.simps) (simp add: receiveClientFd_failure Let_def)
  show ?thesis
    unfolding acceptConnection_def
    using bound accept_retry_step [of s android pid w env s1 w1 env1 fd' s2 w2 env2]
      accept_retry_reconnect_round [of s fd r n ret e' android pid _ w a b e anc rest]
      connected
    by blast
qed


theorem C4_bounded_retries_witness:
  "accept_retry False 4321 0 fresh_state boot_world six_failures
     = accept_retry False 4321 1
         (fresh_state\<lparr>wakeFds := (4, 5), controlSock := - 1, clientSock := - 1\<rparr>)
         (boot_world\<lparr>open_fds := {0, 1, 2, 4, 5},
            trace := [EvSocket 3, EvPipe 0 4 5, EvConnect 3 0, EvSend 3 ''10e1'' 4,
                      EvRecvmsg 3 0 0, EvClose 3]\<rparr>)
         (concat (map failed_round [3, 4, 5, 6, 7]))
   \<and> logs (res_world (acceptConnection False 4321 fresh_state boot_world six_failures))
     = [''adb connection max retries exceeded'']
   \<and> res_outcome (acceptConnection False 4321 fresh_state boot_world six_failures)
     = Returns False
   \<and> recv_calls (trace (res_world
        (acceptConnection False 4321 fresh_state boot_world six_failures))) = 6
   \<and> res_script (acceptConnection False 4321 fresh_state boot_world six_failures) = []
   \<and> res_outcome (acceptConnection False 4321 fresh_state boot_world
        (concat (map failed_round [2, 3, 4, 5, 6])
         @ [SocketRes 3, PipeRes 0 14 15, ConnectRes 0, SendRes 4 0, RecvmsgRes 1 0 (Some 16)]))
     = Returns True
   \<and> res_outcome (acceptConnection True 4321 fresh_state boot_world
        (android_round 2 None @ android_round 3 (Some 8))) = Returns True
   \<and> clientSock (res_state (acceptConnection True 4321 fresh_state boot_world
        (android_round 2 None @ android_round 3 (Some 8)))) = 8"
proof -
  note round = C4_bounded_retries [THEN conjunct2, THEN conjunct2, THEN conjunct2,
      THEN conjunct1, rule_format]
  have stepF: "accept_retry False pid retryCount s w
           (SocketRes fd # PipeRes r a b # ConnectRes 0 # SendRes n e # RecvmsgRes 0 0 anc # rest)
         = (if retryCount + 1 > 5
            then (Returns False, s\<lparr>wakeFds := (a, b), controlSock := - 1, clientSock := - 1\<rparr>,
                  LOG ''adb connection max retries exceeded''
                    (after_failed_receive (s\<lparr>controlSock := fd\<rparr>) 0 0
                       (connected_world pid fd r a b n w)),
                  rest)
            else accept_retry False pid (retryCount + 1)
                   (s\<lparr>wakeFds := (a, b), controlSock := - 1, clientSock := - 1\<rparr>)
                   (after_failed_receive (s\<lparr>controlSock := fd\<rparr>) 0 0
                      (connected_world pid fd r a b n w))
                   rest)"
    if "\<not> shuttingDown s" "controlSock s < 0" "0 \<le> fd" "0 \<le> r" "0 \<le> n"
    for pid retryCount s w fd r a b n e anc rest
    using round [where android = False and ret = 0 and e' = 0, OF that] by simp
  have stepT: "accept_retry True pid retryCount s w
           (SocketRes fd # PipeRes r a b # ConnectRes 0 # PeerTrusted True # SendRes n e
              # RecvmsgRes 0 0 anc # rest)
         = (if retryCount + 1 > 5
            then (Returns False, s\<lparr>wakeFds := (a, b), controlSock := - 1, clientSock := - 1\<rparr>,
                  LOG ''adb connection max retries exceeded''
                    (after_failed_receive (s\<lparr>controlSock := fd\<rparr>) 0 0
                       (connected_world pid fd r a b n w)),
                  rest)
            else accept_retry True pid (retryCount + 1)
                   (s\<lparr>wakeFds := (a, b), controlSock := - 1, clientSock := - 1\<rparr>)
                   (after_failed_receive (s\<lparr>controlSock := fd\<rparr>) 0 0
                      (connected_world pid fd r a b n w))
                   rest)"
    if "\<not> shuttingDown s" "controlSock s < 0" "0 \<le> fd" "0 \<le> r" "0 \<le> n"
    for pid retryCount s w fd r a b n e anc rest
    using round [where android = True and ret = 0 and e' = 0, OF that] by simp
  have buf: "take 4 (snprintf_04x 5 4321) = ''10e1''"
    by (simp add: snprintf_04x_def format_04x_def hex_of.simps hex_digit_def)
  have s1: "{5, 4, 0, 1, 2} = {0, 1, 2, 4, 5 :: int}" by auto
  have "accept_retry False 4321 0 fresh_state boot_world
          (SocketRes 3 # PipeRes 0 4 5 # ConnectRes 0 # SendRes 4 0 # RecvmsgRes 0 0 None
             # concat (map failed_round [3, 4, 5, 6, 7]))
     = (if (0::int) + 1 > 5
        then (Returns False,
              fresh_state\<lparr>wakeFds := (4, 5), controlSock := - 1, clientSock := - 1\<rparr>,
              LOG ''adb connection max retries exceeded''
                (after_failed_receive (fresh_state\<lparr>controlSock := 3\<rparr>) 0 0
                   (connected_world 4321 3 0 4 5 4 boot_world)),
              concat (map failed_round [3, 4, 5, 6, 7]))
        else accept_retry False 4321 (0 + 1)
               (fresh_state\<lparr>wakeFds := (4, 5), controlSock := - 1, clientSock := - 1\<rparr>)
               (after_failed_receive (fresh_state\<lparr>controlSock := 3\<rparr>) 0 0
                  (connected_world 4321 3 0 4 5 4 boot_world))
               (concat (map failed_round [3, 4, 5, 6, 7])))"
    by (rule stepF) (simp_all add: fresh_state_def JdwpNetState_new_def)
  moreover have "after_failed_receive (fresh_state\<lparr>controlSock := 3\<rparr>) 0 0
                  (connected_world 4321 3 0 4 5 4 boot_world)
      = boot_world\<lparr>open_fds := {0, 1, 2, 4, 5},
            trace := [EvSocket 3, EvPipe 0 4 5, EvConnect 3 0, EvSend 3 ''10e1'' 4,
                      EvRecvmsg 3 0 0, EvClose 3]\<rparr>"
    by (simp add: after_failed_receive_def connected_world_def buf sys_close_def emit_def
        fd_install_def boot_world_def insert_Diff_if s1)
  moreover have "six_failures = SocketRes 3 # PipeRes 0 4 5 # ConnectRes 0 # SendRes 4 0
      # RecvmsgRes 0 0 None # concat (map failed_round [3, 4, 5, 6, 7])"
    by (simp add: six_failures_def failed_round_def)
  ultimately have first: "accept_retry False 4321 0 fresh_state boot_world six_failures
     = accept_retry False 4321 1
         (fresh_state\<lparr>wakeFds := (4, 5), controlSock := - 1, clientSock := - 1\<rparr>)
         (boot_world\<lparr>open_fds := {0, 1, 2, 4, 5},
            trace := [EvSocket 3, EvPipe 0 4 5, EvConnect 3 0, EvSend 3 ''10e1'' 4,
                      EvRecvmsg 3 0 0, EvClose 3]\<rparr>)
         (concat (map failed_round [3, 4, 5, 6, 7]))"
    by simp
  have run: "logs (res_world (acceptConnection False 4321 fresh_state boot_world six_failures))
      = [''adb connection max retries exceeded'']
    \<and> res_script (acceptConnection False 4321 fresh_state boot_world six_failures) = []"
    by (simp add: acceptConnection_def six_failures_def failed_round_def stepF fresh_state_def
        JdwpNetState_new_def after_failed_receive_def connected_world_def sys_close_def
        emit_def fd_install_def boot_world_def LOG_def res_simps)
  then have "exceeded_logged (res_world
        (acceptConnection False 4321 fresh_state boot_world six_failures))
      = exceeded_logged boot_world + 1"
    by (simp add: exceeded_logged_def boot_world_def)
  with C4_bounded_retries [of False 4321 fresh_state boot_world six_failures]
  have six: "res_outcome (acceptConnection False 4321 fresh_state boot_world six_failures)
      = Returns False"
    "recv_calls (trace (res_world
        (acceptConnection False 4321 fresh_state boot_world six_failures))) = 6"
    by (simp_all add: boot_world_def)
  have five: "res_outcome (acceptConnection False 4321 fresh_state boot_world
        (concat (map failed_round [2, 3, 4, 5, 6])
         @ [SocketRes 3, PipeRes 0 14 15, ConnectRes 0, SendRes 4 0, RecvmsgRes 1 0 (Some 16)]))
     = Returns True"
    by (simp add: acceptConnection_def failed_round_def accept_retry.simps fresh_state_def
        boot_world_def JdwpNetState_new_def connect_control_def Let_def emit_def fd_install_def
        sys_close_def receiveClientFd_def LOG_def res_simps cong: prod.case_cong_weak)
  have andr: "acceptConnection True 4321 fresh_state boot_world
        (android_round 2 None @ android_round 3 (Some 8))
      = accept_retry True 4321 1
         (fresh_state\<lparr>wakeFds := (4, 5), controlSock := - 1, clientSock := - 1\<rparr>)
         (after_failed_receive (fresh_state\<lparr>controlSock := 3\<rparr>) 0 0
            (connected_world 4321 3 0 4 5 4 boot_world))
         (android_round 3 (Some 8))"
    by (simp add: acceptConnection_def android_round_def stepT fresh_state_def
        JdwpNetState_new_def)
  have andr2: "res_outcome (accept_retry True 4321 1
         (fresh_state\<lparr>wakeFds := (4, 5), controlSock := - 1, clientSock := - 1\<rparr>)
         (after_failed_receive (fresh_state\<lparr>controlSock := 3\<rparr>) 0 0
            (connected_world 4321 3 0 4 5 4 boot_world))
         (android_round 3 (Some 8))) = Returns True
     \<and> clientSock (res_state (accept_retry True 4321 1
         (fresh_state\<lparr>wakeFds := (4, 5), controlSock := - 1, clientSock := - 1\<rparr>)
         (after_failed_receive (fresh_state\<lparr>controlSock := 3\<rparr>) 0 0
            (connected_world 4321 3 0 4 5 4 boot_world))
         (android_round 3 (Some 8)))) = 8"
    by (simp add: android_round_def accept_retry.simps fresh_state_def
        JdwpNetState_new_def connect_control_def Let_def emit_def fd_install_def
        receiveClientFd_def res_simps cong: prod.case_cong_weak)
  show ?thesis
    using first run six five andr2 unfolding andr by simp
qed


end
